theory Spec2Isabelle
  imports Complex_Main
begin

section \<open>Numbers, errors and signals\<close>

text \<open>
  Python floats are IEEE doubles. The amounts the loop carries (cash, equity, profit and
  loss) are read as real numbers, which differs from the code by rounding noise in the
  value only. Wherever the code reads a float discretely, the operation is the double
  operation, rounded to the nearest double with ties to even and overflowing to an
  infinity: the share count \<open>int(capital * 0.95 / current_price)\<close>, the weighted vote
  of the composite and its threshold, the boost and the thresholds of the forest, and
  every quotient whose divisor the source does not guard, which numpy and pandas answer
  with an infinity or NaN instead of raising. Such a value is an \<open>fnum\<close>. Signed
  zeros are not modelled.
\<close>

datatype fnum = Fin real | PosInf | NegInf | NaN

text \<open>
  Rounding a real number to the nearest double. \<open>binade x\<close> is the exponent of
  \<open>x\<close>, not below that of the smallest normal number (so that subnormals share its
  spacing); doubles of that exponent are the multiples of \<open>pow2 (binade x - 52)\<close>.
\<close>

definition pow2 :: "int \<Rightarrow> real" where
  "pow2 k = (if 0 \<le> k then 2 ^ nat k else 1 / 2 ^ nat (- k))"

definition binade :: "real \<Rightarrow> int" where
  "binade x = max \<lfloor>log 2 \<bar>x\<bar>\<rfloor> (- 1022)"

definition round_half_even :: "real \<Rightarrow> int" where
  "round_half_even y =
     (let n = \<lfloor>y\<rfloor>; r = y - of_int n
      in if r < 1 / 2 then n
         else if r > 1 / 2 then n + 1
         else if even n then n else n + 1)"

definition round_double :: "real \<Rightarrow> fnum" where
  "round_double x =
     (if x = 0 then Fin 0
      else
        let ulp = pow2 (binade x - 52);
            y = of_int (round_half_even (x / ulp)) * ulp
        in if 2 ^ 1024 \<le> \<bar>y\<bar> then (if 0 < x then PosInf else NegInf) else Fin y)"

text \<open>
  A quotient of two finite floats under numpy's rules: a zero divisor gives an
  infinity, or NaN for zero over zero.
\<close>

definition fdiv :: "real \<Rightarrow> real \<Rightarrow> fnum" where
  "fdiv a b =
     (if b \<noteq> 0 then round_double (a / b)
      else if a = 0 then NaN
      else if 0 < a then PosInf else NegInf)"

text \<open>Sum, product and quotient of doubles, infinities and NaN included.\<close>

fun fl_add :: "fnum \<Rightarrow> fnum \<Rightarrow> fnum" where
  "fl_add (Fin a) (Fin b) = round_double (a + b)"
| "fl_add NaN y = NaN"
| "fl_add x NaN = NaN"
| "fl_add PosInf NegInf = NaN"
| "fl_add NegInf PosInf = NaN"
| "fl_add PosInf y = PosInf"
| "fl_add NegInf y = NegInf"
| "fl_add x PosInf = PosInf"
| "fl_add x NegInf = NegInf"

fun fl_mul :: "fnum \<Rightarrow> fnum \<Rightarrow> fnum" where
  "fl_mul (Fin a) (Fin b) = round_double (a * b)"
| "fl_mul NaN y = NaN"
| "fl_mul x NaN = NaN"
| "fl_mul (Fin a) PosInf = (if a = 0 then NaN else if 0 < a then PosInf else NegInf)"
| "fl_mul (Fin a) NegInf = (if a = 0 then NaN else if 0 < a then NegInf else PosInf)"
| "fl_mul PosInf (Fin b) = (if b = 0 then NaN else if 0 < b then PosInf else NegInf)"
| "fl_mul NegInf (Fin b) = (if b = 0 then NaN else if 0 < b then NegInf else PosInf)"
| "fl_mul PosInf PosInf = PosInf"
| "fl_mul PosInf NegInf = NegInf"
| "fl_mul NegInf PosInf = NegInf"
| "fl_mul NegInf NegInf = PosInf"

fun fl_div :: "fnum \<Rightarrow> fnum \<Rightarrow> fnum" where
  "fl_div (Fin a) (Fin b) = fdiv a b"
| "fl_div NaN y = NaN"
| "fl_div x NaN = NaN"
| "fl_div (Fin a) y = Fin 0"
| "fl_div PosInf (Fin b) = (if 0 \<le> b then PosInf else NegInf)"
| "fl_div NegInf (Fin b) = (if 0 \<le> b then NegInf else PosInf)"
| "fl_div x y = NaN"

text \<open>The comparisons \<open>x <= y\<close> and \<open>x < y\<close> of floats: false when either is NaN.\<close>

fun fnum_le :: "fnum \<Rightarrow> fnum \<Rightarrow> bool" where
  "fnum_le NaN y = False"
| "fnum_le x NaN = False"
| "fnum_le NegInf y = True"
| "fnum_le x PosInf = True"
| "fnum_le (Fin a) (Fin b) = (a \<le> b)"
| "fnum_le x y = False"

fun fnum_lt :: "fnum \<Rightarrow> fnum \<Rightarrow> bool" where
  "fnum_lt NaN y = False"
| "fnum_lt x NaN = False"
| "fnum_lt (Fin a) (Fin b) = (a < b)"
| "fnum_lt PosInf y = False"
| "fnum_lt x NegInf = False"
| "fnum_lt x y = True"

text \<open>
  The doubles that the literals \<open>0.95\<close>, \<open>0.6\<close> and \<open>0.4\<close> of the source denote.
\<close>

definition double_0_95 :: real where
  "double_0_95 = 4278419646001971 / 4503599627370496"

definition double_0_6 :: real where
  "double_0_6 = 5404319552844595 / 9007199254740992"

definition double_0_4 :: real where
  "double_0_4 = 3602879701896397 / 9007199254740992"

text \<open>The exceptions that can leave \<open>run_backtest\<close>.\<close>

datatype error = OverflowError | ValueError | IndexError | TypeError

text \<open>\<open>int(x)\<close>: truncation towards zero; an infinity or NaN raises.\<close>

definition py_int :: "fnum \<Rightarrow> error + int" where
  "py_int x =
     (case x of
        Fin r \<Rightarrow> Inr (if 0 \<le> r then \<lfloor>r\<rfloor> else \<lceil>r\<rceil>)
      | PosInf \<Rightarrow> Inl OverflowError
      | NegInf \<Rightarrow> Inl OverflowError
      | NaN \<Rightarrow> Inl ValueError)"

text \<open>The three strings a strategy returns: \<open>'BUY'\<close>, \<open>'SELL'\<close>, \<open>'HOLD'\<close>.\<close>

datatype signal = BUY | SELL | HOLD

section \<open>Data model\<close>

text \<open>
  One row of the price frame: its index (the timestamp, in seconds) and the OHLCV
  columns. The frame itself is the list of its rows, in the order given.
\<close>

record Bar =
  index :: int
  Open :: real
  High :: real
  Low :: real
  Close :: real
  Volume :: real

record Trade =
  entry_date :: int
  exit_date :: "int option"
  entry_price :: real
  exit_price :: "real option"
  quantity :: int
  trade_type :: string
  strategy :: string
  symbol :: string
  profit_loss :: "real option"
  is_open :: bool

record BacktestResult =
  strategy_name :: string
  symbol :: string
  total_trades :: nat
  winning_trades :: nat
  losing_trades :: nat
  win_rate :: real
  total_return :: fnum
  sharpe_ratio :: fnum
  max_drawdown :: fnum
  avg_trade_duration :: real
  profit_factor :: real
  total_fees :: real
  net_profit :: real
  signals_accuracy :: real
  trades :: "Trade list"
  equity_curve :: "real list"

section \<open>Strategies (trading\_strategies.py)\<close>

text \<open>
  The interface of \<open>TradingStrategy\<close>: a signal and a strength for a window of bars.
  The five indicator strategies (RSI, MACD, Bollinger bands, moving-average crossover,
  volume) compute theirs with the \<open>ta\<close> library; they enter the model as values of
  this interface, and every theorem below holds for whatever they compute.
\<close>

record TradingStrategy =
  generate_signal :: "Bar list \<Rightarrow> signal"
  get_signal_strength :: "Bar list \<Rightarrow> real"

subsection \<open>MLRandomForestStrategy\<close>

text \<open>
  A row of the frame \<open>prepare_features\<close> returns: the values of the predictor columns,
  the RSI column and the target. A ratio column can hold an infinity.
\<close>

record Row =
  predictor_values :: "fnum list"
  RSI :: real
  Target :: int

text \<open>
  A fitted classifier is its \<open>predict_proba\<close> on one row of features: the list of
  class probabilities, or \<open>None\<close> where the call raises.
\<close>

type_synonym classifier = "fnum list \<Rightarrow> real list option"

text \<open>
  What the libraries compute: \<open>rsi14 closes i\<close> is the value at row \<open>i\<close> of
  \<open>RSIIndicator(closes, window=14).rsi()\<close>, a number from row 13 on, and \<open>fit\<close> is
  the forest grown from the training rows, \<open>None\<close> where fitting raises.
\<close>

record Library =
  rsi14 :: "real list \<Rightarrow> nat \<Rightarrow> real"
  fit :: "Row list \<Rightarrow> classifier option"

record MLRandomForestStrategy =
  model :: classifier
  is_trained :: bool

text \<open>\<open>__init__\<close>: an unfitted forest, whose \<open>predict_proba\<close> raises.\<close>

definition MLRandomForestStrategy_init :: MLRandomForestStrategy where
  "MLRandomForestStrategy_init = \<lparr>model = (\<lambda>_. None), is_trained = False\<rparr>"

text \<open>
  The columns of \<open>prepare_features\<close> at row \<open>i\<close>. The target is 1 when the next
  close is higher; in the last row, which has no next close, the comparison is false.
\<close>

definition Target_at :: "Bar list \<Rightarrow> nat \<Rightarrow> int" where
  "Target_at data i =
     (if i + 1 < length data \<and> Close (data ! (i + 1)) > Close (data ! i) then 1 else 0)"

text \<open>\<open>df.rolling(horizon).mean()['Close']\<close>, defined from row \<open>horizon - 1\<close> on.\<close>

definition rolling_mean_close :: "nat \<Rightarrow> Bar list \<Rightarrow> nat \<Rightarrow> real" where
  "rolling_mean_close horizon data i =
     sum_list (map Close (take horizon (drop (i + 1 - horizon) data))) / real horizon"

definition Close_Ratio :: "nat \<Rightarrow> Bar list \<Rightarrow> nat \<Rightarrow> fnum" where
  "Close_Ratio horizon data i = fdiv (Close (data ! i)) (rolling_mean_close horizon data i)"

text \<open>
  \<open>df.shift(1).rolling(horizon).sum()['Target']\<close>: the targets of the \<open>horizon\<close>
  rows before row \<open>i\<close>, defined from row \<open>horizon\<close> on.
\<close>

definition Trend :: "nat \<Rightarrow> Bar list \<Rightarrow> nat \<Rightarrow> int" where
  "Trend horizon data i = sum_list (map (Target_at data) [i - horizon..<i])"

definition horizons :: "nat list" where
  "horizons = [2, 5, 60, 250, 1000]"

text \<open>The row of the frame at \<open>i\<close>, its predictors in the order of \<open>self.predictors\<close>.\<close>

definition feature_row :: "Library \<Rightarrow> Bar list \<Rightarrow> nat \<Rightarrow> Row" where
  "feature_row lib data i =
     \<lparr>predictor_values =
        [Fin (Close (data ! i)), Fin (Volume (data ! i)), Fin (Open (data ! i)),
         Fin (High (data ! i)), Fin (Low (data ! i))]
        @ concat (map (\<lambda>horizon. [Close_Ratio horizon data i,
                                   Fin (of_int (Trend horizon data i))]) horizons)
        @ [Fin (rsi14 lib (map Close data) i)],
      RSI = rsi14 lib (map Close data) i,
      Target = Target_at data i\<rparr>"

text \<open>
  \<open>prepare_features\<close>: \<open>dropna\<close> keeps the rows in which nothing is missing. The
  1000-row trend is missing before row 1000, the next close is missing in the last row,
  and a ratio is missing where it is zero over zero. On a frame of numeric columns none
  of the operations raises.
\<close>

definition prepare_features :: "Library \<Rightarrow> Bar list \<Rightarrow> Row list" where
  "prepare_features lib data =
     map (feature_row lib data)
       (filter (\<lambda>i. list_all (\<lambda>horizon. Close_Ratio horizon data i \<noteq> NaN) horizons)
          [1000..<length data - 1])"

text \<open>\<open>train_model\<close>. An exception of \<open>fit\<close> is caught and logged.\<close>

definition train_model ::
  "Library \<Rightarrow> MLRandomForestStrategy \<Rightarrow> Bar list \<Rightarrow> MLRandomForestStrategy" where
  "train_model lib ml data =
     (let prepared_data = prepare_features lib data
      in if length prepared_data < 100 then ml
         else
           let train_size = nat \<lfloor>real (length prepared_data) * 0.8\<rfloor>;
               train_data = take train_size prepared_data
           in (case fit lib train_data of
                 None \<Rightarrow> ml
               | Some fitted \<Rightarrow> ml\<lparr>model := fitted, is_trained := True\<rparr>))"

text \<open>
  The class-1 probability read from \<open>predict_proba\<close>, shared by the two methods
  below: \<open>prediction_proba[1] if len(prediction_proba) > 1 else 0.5\<close>.
\<close>

definition class1_probability :: "real list \<Rightarrow> real" where
  "class1_probability prediction_proba =
     (if length prediction_proba > 1 then prediction_proba ! 1 else 0.5)"

text \<open>The boost of an oversold bar: \<open>min(1.0, buy_probability * 1.5)\<close>.\<close>

definition boosted :: "real \<Rightarrow> fnum" where
  "boosted p = (let x = fl_mul (Fin p) (Fin 1.5) in if fnum_lt x (Fin 1) then x else Fin 1)"

text \<open>
  \<open>generate_signal\<close>, in two parts. \<open>buy_probability\<close> is the value the source
  holds in its variable of that name when it reaches the threshold test; it is \<open>None\<close>
  on the paths that return HOLD before the test (untrained, empty frame, a caught
  exception of \<open>predict_proba\<close>).
\<close>

definition buy_probability ::
  "Library \<Rightarrow> MLRandomForestStrategy \<Rightarrow> Bar list \<Rightarrow> fnum option" where
  "buy_probability lib ml data =
     (if \<not> is_trained ml then None
      else
        let prepared_data = prepare_features lib data
        in if prepared_data = [] then None
           else
             case model ml (predictor_values (last prepared_data)) of
               None \<Rightarrow> None
             | Some prediction_proba \<Rightarrow>
                 let rsi = RSI (last prepared_data);
                     p = class1_probability prediction_proba
                 in Some (if rsi < 30 then boosted p else Fin p))"

definition MLRandomForestStrategy_generate_signal ::
  "Library \<Rightarrow> MLRandomForestStrategy \<Rightarrow> Bar list \<Rightarrow> signal" where
  "MLRandomForestStrategy_generate_signal lib ml data =
     (case buy_probability lib ml data of
        None \<Rightarrow> HOLD
      | Some p \<Rightarrow>
          if fnum_le (Fin double_0_6) p then BUY
          else if fnum_le p (Fin double_0_4) then SELL
          else HOLD)"

definition MLRandomForestStrategy_get_signal_strength ::
  "Library \<Rightarrow> MLRandomForestStrategy \<Rightarrow> Bar list \<Rightarrow> real" where
  "MLRandomForestStrategy_get_signal_strength lib ml data =
     (if \<not> is_trained ml then 0.5
      else
        let prepared_data = prepare_features lib data
        in if prepared_data = [] then 0.5
           else
             case model ml (predictor_values (last prepared_data)) of
               None \<Rightarrow> 0.5
             | Some prediction_proba \<Rightarrow> class1_probability prediction_proba)"

subsection \<open>CompositeStrategy\<close>

record CompositeStrategy =
  strategies :: "TradingStrategy list"
  weights :: "real list"

text \<open>
  \<open>__init__\<close>: \<open>weights or [1.0] * len(strategies)\<close>, reset to ones when the lengths
  differ. An empty list of weights is false in Python, as \<open>None\<close> is.
\<close>

definition CompositeStrategy_init ::
  "TradingStrategy list \<Rightarrow> real list option \<Rightarrow> CompositeStrategy" where
  "CompositeStrategy_init strats ws =
     (let ones = replicate (length strats) 1;
          w = (case ws of None \<Rightarrow> ones | Some l \<Rightarrow> if l = [] then ones else l)
      in \<lparr>strategies = strats,
          weights = (if length w \<noteq> length strats then ones else w)\<rparr>)"

text \<open>
  \<open>sum(s for s, sig in zip(strengths, signals) if sig == b)\<close>: the members of the
  bucket added from the left, starting from zero, each partial sum rounded. (From
  version 3.12 on, the interpreter compensates the rounding errors of the partial sums
  when every member is a plain float; a bucket of one or two members has the same sum
  either way.)
\<close>

definition bucket_weight :: "signal \<Rightarrow> fnum list \<Rightarrow> signal list \<Rightarrow> fnum" where
  "bucket_weight b strengths signals =
     foldl fl_add (Fin 0) (map fst (filter (\<lambda>(s, sig). sig = b) (zip strengths signals)))"

definition CompositeStrategy_generate_signal :: "CompositeStrategy \<Rightarrow> Bar list \<Rightarrow> signal" where
  "CompositeStrategy_generate_signal c data =
     (let polled = map (\<lambda>(strategy, weight).
                          (generate_signal strategy data,
                           fl_mul (Fin (get_signal_strength strategy data)) (Fin weight)))
                       (zip (strategies c) (weights c));
          signals = map fst polled;
          strengths = map snd polled;
          buy_weight = bucket_weight BUY strengths signals;
          sell_weight = bucket_weight SELL strengths signals;
          hold_weight = bucket_weight HOLD strengths signals;
          total_weight = fl_add (fl_add buy_weight sell_weight) hold_weight
      in if total_weight = Fin 0 then HOLD
         else
           let buy_ratio = fl_div buy_weight total_weight;
               sell_ratio = fl_div sell_weight total_weight
           in if fnum_lt (Fin double_0_6) buy_ratio then BUY
              else if fnum_lt (Fin double_0_6) sell_ratio then SELL
              else HOLD)"

subsection \<open>StrategyManager\<close>

text \<open>
  The objects behind the registry. Only the forest has state that changes; the composite
  holds references to the other six, so it reads the forest as it is when polled.
\<close>

record StrategyManager =
  rsi :: TradingStrategy
  macd :: TradingStrategy
  bb :: TradingStrategy
  ma_cross :: TradingStrategy
  ml_rf :: MLRandomForestStrategy
  volume :: TradingStrategy

definition ml_strategy :: "Library \<Rightarrow> MLRandomForestStrategy \<Rightarrow> TradingStrategy" where
  "ml_strategy lib ml =
     \<lparr>generate_signal = MLRandomForestStrategy_generate_signal lib ml,
      get_signal_strength = MLRandomForestStrategy_get_signal_strength lib ml\<rparr>"

text \<open>
  The composite of \<open>_initialize_strategies\<close>: the six strategies in the order of the
  dictionary, with the weights written there.
\<close>

definition composite :: "Library \<Rightarrow> StrategyManager \<Rightarrow> CompositeStrategy" where
  "composite lib mgr =
     CompositeStrategy_init
       [rsi mgr, macd mgr, bb mgr, ma_cross mgr, ml_strategy lib (ml_rf mgr), volume mgr]
       (Some [1.0, 1.2, 0.8, 1.0, 1.5, 0.7])"

text \<open>
  The composite inherits \<open>get_signal_strength\<close> from \<open>TradingStrategy\<close>, which
  returns 0.5.
\<close>

definition composite_strategy :: "CompositeStrategy \<Rightarrow> TradingStrategy" where
  "composite_strategy c =
     \<lparr>generate_signal = CompositeStrategy_generate_signal c,
      get_signal_strength = (\<lambda>_. 0.5)\<rparr>"

text \<open>\<open>get_strategy\<close>: \<open>self.strategies.get(name)\<close> on the seven keys.\<close>

definition get_strategy ::
  "Library \<Rightarrow> StrategyManager \<Rightarrow> string \<Rightarrow> TradingStrategy option" where
  "get_strategy lib mgr name =
     (if name = ''rsi'' then Some (rsi mgr)
      else if name = ''macd'' then Some (macd mgr)
      else if name = ''bb'' then Some (bb mgr)
      else if name = ''ma_cross'' then Some (ma_cross mgr)
      else if name = ''ml_rf'' then Some (ml_strategy lib (ml_rf mgr))
      else if name = ''volume'' then Some (volume mgr)
      else if name = ''composite'' then Some (composite_strategy (composite lib mgr))
      else None)"

definition train_ml_strategies ::
  "Library \<Rightarrow> StrategyManager \<Rightarrow> string \<Rightarrow> Bar list \<Rightarrow> StrategyManager" where
  "train_ml_strategies lib mgr symb historical_data =
     mgr\<lparr>ml_rf := train_model lib (ml_rf mgr) historical_data\<rparr>"

section \<open>The backtesting engine (backtesting\_engine.py)\<close>

record BacktestingEngine =
  initial_capital :: real
  commission :: real
  strategy_manager :: StrategyManager

subsection \<open>Closing a trade\<close>

text \<open>
  \<open>_close_position\<close> writes into the trade it is given, which is the last element of
  the ledger; the model returns the trade as written and the caller puts it back.
\<close>

definition close_position :: "BacktestingEngine \<Rightarrow> Trade \<Rightarrow> real \<Rightarrow> int \<Rightarrow> Trade" where
  "close_position eng trade exit_price' exit_date' =
     (let gross =
            (if trade_type trade = ''BUY''
             then (exit_price' - entry_price trade) * of_int (quantity trade)
             else (entry_price trade - exit_price') * of_int (quantity trade));
          total_commission =
            (entry_price trade + exit_price') * of_int (quantity trade) * commission eng
      in trade\<lparr>exit_price := Some exit_price',
               exit_date := Some exit_date',
               is_open := False,
               profit_loss := Some (gross - total_commission)\<rparr>)"

subsection \<open>The empty result\<close>

definition create_empty_result :: "string \<Rightarrow> string \<Rightarrow> BacktestResult" where
  "create_empty_result name symb =
     \<lparr>strategy_name = name,
      symbol = symb,
      total_trades = 0,
      winning_trades = 0,
      losing_trades = 0,
      win_rate = 0,
      total_return = Fin 0,
      sharpe_ratio = Fin 0,
      max_drawdown = Fin 0,
      avg_trade_duration = 0,
      profit_factor = 0,
      total_fees = 0,
      net_profit = 0,
      signals_accuracy = 0,
      trades = [],
      equity_curve = []\<rparr>"

subsection \<open>Metrics\<close>

text \<open>
  \<open>equity_series.pct_change().dropna()\<close>: each point over the one before, minus one.
  Over a zero the quotient is an infinity, which stays in the series, or NaN (zero over
  zero), which \<open>dropna\<close> removes together with the first entry.
\<close>

fun pct_change_dropna :: "real list \<Rightarrow> fnum list" where
  "pct_change_dropna (a # b # es) =
     (case fdiv b a of
        Fin q \<Rightarrow> [Fin (q - 1)]
      | PosInf \<Rightarrow> [PosInf]
      | NegInf \<Rightarrow> [NegInf]
      | NaN \<Rightarrow> []) @ pct_change_dropna (b # es)"
| "pct_change_dropna es = []"

definition finite_values :: "fnum list \<Rightarrow> real list option" where
  "finite_values xs = those (map (\<lambda>x. case x of Fin r \<Rightarrow> Some r | _ \<Rightarrow> None) xs)"

definition mean :: "real list \<Rightarrow> real" where
  "mean xs = sum_list xs / real (length xs)"

text \<open>\<open>Series.std()\<close>: the sample standard deviation (one degree of freedom less).\<close>

definition std :: "real list \<Rightarrow> real" where
  "std xs = sqrt (sum_list (map (\<lambda>x. (x - mean xs)\<^sup>2) xs) / (real (length xs) - 1))"

text \<open>
  The Sharpe ratio. With an infinite return in the series its standard deviation is NaN,
  which differs from 0, and the quotient is NaN.
\<close>

definition sharpe :: "real list \<Rightarrow> fnum" where
  "sharpe equity =
     (let returns = pct_change_dropna equity
      in if length returns > 1 then
           (case finite_values returns of
              None \<Rightarrow> NaN
            | Some rs \<Rightarrow> if std rs \<noteq> 0 then Fin (mean rs / std rs * sqrt 252) else Fin 0)
         else Fin 0)"

text \<open>\<open>equity_series.expanding().max()\<close>: the running maximum.\<close>

fun expanding_max_from :: "real \<Rightarrow> real list \<Rightarrow> real list" where
  "expanding_max_from m [] = []"
| "expanding_max_from m (e # es) = max m e # expanding_max_from (max m e) es"

definition expanding_max :: "real list \<Rightarrow> real list" where
  "expanding_max es = (case es of [] \<Rightarrow> [] | e # rest \<Rightarrow> e # expanding_max_from e rest)"

definition drawdown :: "real list \<Rightarrow> fnum list" where
  "drawdown equity = map (\<lambda>(e, peak). fdiv (e - peak) peak) (zip equity (expanding_max equity))"

text \<open>
  \<open>Series.min()\<close>: NaN entries are skipped; the minimum of a series with no other
  entry is NaN.
\<close>

fun series_min :: "fnum list \<Rightarrow> fnum" where
  "series_min [] = NaN"
| "series_min (x # xs) =
     (let m = series_min xs
      in if x = NaN then m
         else if m = NaN then x
         else if fnum_le x m then x else m)"

text \<open>
  \<open>_calculate_metrics\<close>, from the profits and losses to the result:
  \<open>closed_trades\<close> are the closed trades and \<open>pls\<close> their \<open>profit_loss\<close>.
\<close>

definition metrics ::
  "BacktestingEngine \<Rightarrow> string \<Rightarrow> string \<Rightarrow> Trade list \<Rightarrow> real list \<Rightarrow> real list \<Rightarrow> nat \<Rightarrow> nat
     \<Rightarrow> BacktestResult" where
  "metrics eng name symb closed_trades pls equity signals_correct total_signals =
     (let n_trades = length closed_trades;
          profits = filter (\<lambda>p. p > 0) pls;
          losses = filter (\<lambda>p. p < 0) pls;
          total_profit = (if profits \<noteq> [] then sum_list profits else 0);
          total_loss = (if losses \<noteq> [] then sum_list losses else 0);
          trade_durations =
            concat (map (\<lambda>t. case exit_date t of
                                None \<Rightarrow> []
                              | Some d \<Rightarrow> [(d - entry_date t) div 86400])
                        closed_trades)
      in \<lparr>strategy_name = name,
          symbol = symb,
          total_trades = n_trades,
          winning_trades = length profits,
          losing_trades = length losses,
          win_rate = (if n_trades > 0 then real (length profits) / real n_trades else 0),
          total_return = fdiv (total_profit + total_loss) (initial_capital eng),
          sharpe_ratio = sharpe equity,
          max_drawdown = series_min (drawdown equity),
          avg_trade_duration =
            (if trade_durations \<noteq> []
             then real_of_int (sum_list trade_durations) / real (length trade_durations)
             else 0),
          profit_factor = (if total_loss \<noteq> 0 then \<bar>total_profit / total_loss\<bar> else 0),
          total_fees =
            sum_list
              (map (\<lambda>t. (entry_price t + (case exit_price t of None \<Rightarrow> 0 | Some x \<Rightarrow> x))
                          * of_int (quantity t) * commission eng)
                   closed_trades),
          net_profit = total_profit + total_loss,
          signals_accuracy =
            (if total_signals > 0 then real signals_correct / real total_signals else 0),
          trades = closed_trades,
          equity_curve = equity\<rparr>)"

text \<open>
  \<open>_calculate_metrics\<close>: the two early returns, then the metrics. Comparing a missing
  \<open>profit_loss\<close> with 0 raises \<open>TypeError\<close>.
\<close>

definition calculate_metrics ::
  "BacktestingEngine \<Rightarrow> string \<Rightarrow> string \<Rightarrow> Trade list \<Rightarrow> real list \<Rightarrow> nat \<Rightarrow> nat
     \<Rightarrow> error + BacktestResult" where
  "calculate_metrics eng name symb trades' equity signals_correct total_signals =
     (if trades' = [] then Inr (create_empty_result name symb)
      else
        let closed_trades = filter (\<lambda>t. \<not> is_open t) trades'
        in if length closed_trades = 0 then Inr (create_empty_result name symb)
           else
             case those (map profit_loss closed_trades) of
               None \<Rightarrow> Inl TypeError
             | Some pls \<Rightarrow>
                 Inr (metrics eng name symb closed_trades pls equity
                        signals_correct total_signals))"

subsection \<open>The simulation loop\<close>

text \<open>The local variables of \<open>run_backtest\<close> that the loop updates.\<close>

record Sim =
  st_trades :: "Trade list"
  st_capital :: real
  st_position :: int
  st_entry_price :: real
  st_entry_date :: "int option"
  st_equity_curve :: "real list"
  st_signals_correct :: nat
  st_total_signals :: nat

definition initial_sim :: "BacktestingEngine \<Rightarrow> Sim" where
  "initial_sim eng =
     \<lparr>st_trades = [],
      st_capital = initial_capital eng,
      st_position = 0,
      st_entry_price = 0,
      st_entry_date = None,
      st_equity_curve = [],
      st_signals_correct = 0,
      st_total_signals = 0\<rparr>"

text \<open>Signal accuracy, counted only while a next bar exists (\<open>i < len(data) - 1\<close>).\<close>

definition track_accuracy :: "Bar list \<Rightarrow> nat \<Rightarrow> signal \<Rightarrow> real \<Rightarrow> Sim \<Rightarrow> Sim" where
  "track_accuracy data i sig current_price s =
     (if i + 1 < length data then
        let next_price = Close (data ! (i + 1));
            s1 = (if sig = BUY \<and> next_price > current_price
                  then s\<lparr>st_signals_correct := st_signals_correct s + 1\<rparr>
                  else if sig = SELL \<and> next_price < current_price
                  then s\<lparr>st_signals_correct := st_signals_correct s + 1\<rparr>
                  else if sig = HOLD
                  then s\<lparr>st_signals_correct := st_signals_correct s + 1\<rparr>
                  else s)
        in s1\<lparr>st_total_signals := st_total_signals s1 + 1\<rparr>
      else s)"

text \<open>
  \<open>trade = self._close_position(trades[-1], ...)\<close> followed by
  \<open>capital += trade.profit_loss\<close>: \<open>trades[-1]\<close> raises on an empty ledger, the
  closed trade replaces the last one, and only its profit or loss is added to the cash.
\<close>

definition close_last :: "BacktestingEngine \<Rightarrow> real \<Rightarrow> int \<Rightarrow> Sim \<Rightarrow> error + Sim" where
  "close_last eng current_price current_date s =
     (if st_trades s = [] then Inl IndexError
      else
        let trade = close_position eng (last (st_trades s)) current_price current_date
        in case profit_loss trade of
             None \<Rightarrow> Inl TypeError
           | Some pl \<Rightarrow>
               Inr (s\<lparr>st_trades := butlast (st_trades s) @ [trade],
                      st_capital := st_capital s + pl\<rparr>))"

text \<open>
  Opening the long position: \<open>int(capital * 0.95 / current_price)\<close> shares, the
  product and the quotient being doubles, none if that is not positive. A price of zero,
  or one so small that the quotient overflows, makes the quotient infinite or NaN, and
  \<open>int\<close> raises.
\<close>

definition open_long ::
  "BacktestingEngine \<Rightarrow> string \<Rightarrow> string \<Rightarrow> real \<Rightarrow> int \<Rightarrow> Sim \<Rightarrow> error + Sim" where
  "open_long eng symb name current_price current_date s =
     (case py_int (fl_div (fl_mul (Fin (st_capital s)) (Fin double_0_95)) (Fin current_price)) of
        Inl e \<Rightarrow> Inl e
      | Inr qty \<Rightarrow>
          if qty > 0 then
            let trade = \<lparr>entry_date = current_date,
                         exit_date = None,
                         entry_price = current_price,
                         exit_price = None,
                         quantity = qty,
                         trade_type = ''BUY'',
                         strategy = name,
                         Trade.symbol = symb,
                         profit_loss = None,
                         is_open = True\<rparr>
            in Inr (s\<lparr>st_trades := st_trades s @ [trade],
                     st_position := 1,
                     st_entry_price := current_price,
                     st_entry_date := Some current_date,
                     st_capital :=
                       st_capital s - of_int qty * current_price * (1 + commission eng)\<rparr>)
          else Inr s)"

text \<open>The \<open>if signal == 'BUY' and position <= 0: ... elif ...\<close> block.\<close>

definition execute_signal ::
  "BacktestingEngine \<Rightarrow> string \<Rightarrow> string \<Rightarrow> signal \<Rightarrow> real \<Rightarrow> int \<Rightarrow> Sim \<Rightarrow> error + Sim" where
  "execute_signal eng symb name sig current_price current_date s =
     (if sig = BUY \<and> st_position s \<le> 0 then
        (case (if st_position s = - 1 then close_last eng current_price current_date s
               else Inr s) of
           Inl e \<Rightarrow> Inl e
         | Inr s1 \<Rightarrow> open_long eng symb name current_price current_date s1)
      else if sig = SELL \<and> st_position s \<ge> 0 then
        (if st_position s = 1 then
           (case close_last eng current_price current_date s of
              Inl e \<Rightarrow> Inl e
            | Inr s1 \<Rightarrow> Inr (s1\<lparr>st_position := 0\<rparr>))
         else Inr s)
      else Inr s)"

definition current_equity :: "real \<Rightarrow> Sim \<Rightarrow> real" where
  "current_equity current_price s =
     (if st_position s = 1 \<and> st_trades s \<noteq> [] then
        let unrealized_pnl =
              (current_price - entry_price (last (st_trades s)))
                * of_int (quantity (last (st_trades s)))
        in st_capital s + unrealized_pnl
      else st_capital s)"

text \<open>One pass of the loop body, for the bar at index \<open>i\<close>.\<close>

definition bar_step ::
  "BacktestingEngine \<Rightarrow> TradingStrategy \<Rightarrow> string \<Rightarrow> string \<Rightarrow> Bar list \<Rightarrow> nat \<Rightarrow> Sim
     \<Rightarrow> error + Sim" where
  "bar_step eng strat symb name data i s =
     (let current_data = take (i + 1) data;
          current_price = Close (last current_data);
          current_date = index (last current_data);
          sig = generate_signal strat current_data;
          s1 = track_accuracy data i sig current_price s
      in case execute_signal eng symb name sig current_price current_date s1 of
           Inl e \<Rightarrow> Inl e
         | Inr s2 \<Rightarrow>
             Inr (s2\<lparr>st_equity_curve :=
                       st_equity_curve s2 @ [current_equity current_price s2]\<rparr>))"

text \<open>\<open>for i in range(50, len(data))\<close>, stopping at the first exception.\<close>

fun run_bars ::
  "BacktestingEngine \<Rightarrow> TradingStrategy \<Rightarrow> string \<Rightarrow> string \<Rightarrow> Bar list \<Rightarrow> nat list \<Rightarrow> Sim
     \<Rightarrow> error + Sim" where
  "run_bars eng strat symb name data [] s = Inr s"
| "run_bars eng strat symb name data (i # rest) s =
     (case bar_step eng strat symb name data i s of
        Inl e \<Rightarrow> Inl e
      | Inr s' \<Rightarrow> run_bars eng strat symb name data rest s')"

text \<open>The forced close after the loop: \<open>if trades and trades[-1].is_open\<close>.\<close>

definition close_remaining :: "BacktestingEngine \<Rightarrow> Bar list \<Rightarrow> Trade list \<Rightarrow> Trade list" where
  "close_remaining eng data ts =
     (if ts \<noteq> [] \<and> is_open (last ts) then
        let final_price = Close (last data);
            final_date = index (last data)
        in butlast ts @ [close_position eng (last ts) final_price final_date]
      else ts)"

subsection \<open>run\_backtest\<close>

text \<open>
  The date filter keeps the rows whose index is within the bounds; a bound that is
  \<open>None\<close> or the empty string filters nothing.
\<close>

definition filter_dates :: "int option \<Rightarrow> int option \<Rightarrow> Bar list \<Rightarrow> Bar list" where
  "filter_dates start_date end_date data =
     (let data1 = (case start_date of
                     None \<Rightarrow> data
                   | Some sd \<Rightarrow> filter (\<lambda>b. index b \<ge> sd) data)
      in case end_date of
           None \<Rightarrow> data1
         | Some ed \<Rightarrow> filter (\<lambda>b. index b \<le> ed) data1)"

text \<open>
  The simulation proper, from the initialisation of the tracking variables to the
  metrics.
\<close>

definition simulate ::
  "BacktestingEngine \<Rightarrow> TradingStrategy \<Rightarrow> string \<Rightarrow> string \<Rightarrow> Bar list
     \<Rightarrow> error + BacktestResult" where
  "simulate eng strat symb name data =
     (case run_bars eng strat symb name data [50..<length data] (initial_sim eng) of
        Inl e \<Rightarrow> Inl e
      | Inr s \<Rightarrow>
          calculate_metrics eng name symb
            (close_remaining eng data (st_trades s))
            (st_equity_curve s) (st_signals_correct s) (st_total_signals s))"

text \<open>
  \<open>run_backtest\<close> returns its result or the exception that leaves it, and the engine,
  whose forest may have been trained. The strategy object is looked up before the
  training; for \<open>'ml_rf'\<close> it is the forest, which the loop reads as trained.
\<close>

definition run_backtest ::
  "Library \<Rightarrow> BacktestingEngine \<Rightarrow> string \<Rightarrow> Bar list \<Rightarrow> string \<Rightarrow> int option \<Rightarrow> int option
     \<Rightarrow> (error + BacktestResult) \<times> BacktestingEngine" where
  "run_backtest lib eng symb data0 name start_date end_date =
     (let data = filter_dates start_date end_date data0
      in if length data < 50 then (Inr (create_empty_result name symb), eng)
         else
           case get_strategy lib (strategy_manager eng) name of
             None \<Rightarrow> (Inr (create_empty_result name symb), eng)
           | Some found \<Rightarrow>
               let mgr = (if name = ''ml_rf''
                          then train_ml_strategies lib (strategy_manager eng) symb data
                          else strategy_manager eng);
                   strat = (if name = ''ml_rf'' then ml_strategy lib (ml_rf mgr) else found)
               in (simulate eng strat symb name data, eng\<lparr>strategy_manager := mgr\<rparr>))"

section \<open>Notions used in the statements\<close>

text \<open>The keys of the registry built by \<open>_initialize_strategies\<close>.\<close>

definition strategy_ids :: "string list" where
  "strategy_ids = [''rsi'', ''macd'', ''bb'', ''ma_cross'', ''ml_rf'', ''volume'', ''composite'']"

text \<open>
  The composite's rule in the words of the specification: the strength of each member,
  scaled by its weight, goes into the bucket of the signal that member emitted. The
  products and the sum are those of doubles, the members taken in their order.
\<close>

definition weighted_bucket ::
  "signal \<Rightarrow> (TradingStrategy \<times> real) list \<Rightarrow> Bar list \<Rightarrow> fnum" where
  "weighted_bucket b members data =
     foldl fl_add (Fin 0)
       (map (\<lambda>(g, w). fl_mul (Fin (get_signal_strength g data)) (Fin w))
            (filter (\<lambda>(g, w). generate_signal g data = b) members))"

text \<open>
  What holds of the loop's variables before and after every bar: the position is flat
  or long; a long position has its open trade at the end of the ledger; every trade in
  the ledger is a BUY and, once closed, carries its profit or loss; no more signals are
  counted correct than were counted; and while flat, the last equity point is the cash.
\<close>

definition sim_ok :: "Sim \<Rightarrow> bool" where
  "sim_ok s \<longleftrightarrow>
     (st_position s = 0 \<or> st_position s = 1)
     \<and> (st_position s = 1 \<longrightarrow> st_trades s \<noteq> [] \<and> is_open (last (st_trades s)))
     \<and> (\<forall>t\<in>set (st_trades s). trade_type t = ''BUY''
            \<and> (\<not> is_open t \<longrightarrow> profit_loss t \<noteq> None))
     \<and> st_signals_correct s \<le> st_total_signals s
     \<and> (st_position s = 0 \<longrightarrow> st_equity_curve s \<noteq> []
            \<longrightarrow> last (st_equity_curve s) = st_capital s)"

section \<open>Example inputs\<close>

text \<open>A strategy that answers every window with the same signal and strength.\<close>

definition fixed_strategy :: "signal \<Rightarrow> real \<Rightarrow> TradingStrategy" where
  "fixed_strategy sig strength =
     \<lparr>generate_signal = (\<lambda>_. sig), get_signal_strength = (\<lambda>_. strength)\<rparr>"

text \<open>
  A strategy that follows the last move: BUY when the last close is below the one before
  it, SELL when it is above. On a series that only falls it signals what the RSI
  strategy signals there (the RSI of a falling series is 0, below 30), and it takes the
  place of that strategy in the registry of the examples.
\<close>

definition last_move_strategy :: TradingStrategy where
  "last_move_strategy =
     \<lparr>generate_signal =
        (\<lambda>data. if length data < 2 then HOLD
                else if Close (last data) < Close (last (butlast data)) then BUY
                else if Close (last data) > Close (last (butlast data)) then SELL
                else HOLD),
      get_signal_strength = (\<lambda>_. 0.5)\<rparr>"

text \<open>A library whose RSI is 50 everywhere and whose forest cannot be fitted.\<close>

definition example_library :: Library where
  "example_library = \<lparr>rsi14 = (\<lambda>_ _. 50), fit = (\<lambda>_. None)\<rparr>"

text \<open>A library whose RSI is 20 everywhere.\<close>

definition oversold_library :: Library where
  "oversold_library = \<lparr>rsi14 = (\<lambda>_ _. 20), fit = (\<lambda>_. None)\<rparr>"

text \<open>A trained forest that gives both classes the probability 0.5.\<close>

definition even_forest :: MLRandomForestStrategy where
  "even_forest = \<lparr>model = (\<lambda>_. Some [0.5, 0.5]), is_trained = True\<rparr>"

definition example_manager :: StrategyManager where
  "example_manager =
     \<lparr>rsi = last_move_strategy,
      macd = fixed_strategy HOLD 0.5,
      bb = fixed_strategy HOLD 0.5,
      ma_cross = fixed_strategy HOLD 0.5,
      ml_rf = MLRandomForestStrategy_init,
      volume = fixed_strategy HOLD 0.5\<rparr>"

definition example_engine :: "real \<Rightarrow> real \<Rightarrow> BacktestingEngine" where
  "example_engine capital rate =
     \<lparr>initial_capital = capital, commission = rate, strategy_manager = example_manager\<rparr>"

text \<open>
  The bar of a day: its timestamp in seconds, the four prices at \<open>c\<close> and a volume
  of 1000.
\<close>

definition bar_at :: "int \<Rightarrow> real \<Rightarrow> Bar" where
  "bar_at day c =
     \<lparr>index = 86400 * day, Open = c, High = c, Low = c, Close = c, Volume = 1000\<rparr>"

text \<open>\<open>n\<close> daily bars whose close falls by one each day, from 100.\<close>

definition falling_bars :: "nat \<Rightarrow> Bar list" where
  "falling_bars n = map (\<lambda>k. bar_at (int k) (100 - real k)) [0..<n]"

text \<open>The same closes with every bar carrying the same timestamp.\<close>

definition same_day_bars :: "nat \<Rightarrow> Bar list" where
  "same_day_bars n = map (\<lambda>k. bar_at 0 (100 - real k)) [0..<n]"

text \<open>Fifty-one falling bars and a rebound to 60 on the next day.\<close>

definition rebound_bars :: "Bar list" where
  "rebound_bars = falling_bars 51 @ [bar_at 51 60]"

text \<open>Fifty falling bars and a close of 0 on the next day.\<close>

definition zero_close_bars :: "Bar list" where
  "zero_close_bars = falling_bars 50 @ [bar_at 50 0]"

text \<open>
  Fifty falling bars and a close of \<open>1e-320\<close> on the next day: that double is 2024
  times the smallest positive one.
\<close>

definition tiny_close_bars :: "Bar list" where
  "tiny_close_bars = falling_bars 50 @ [bar_at 50 (2024 * pow2 (- 1074))]"

text \<open>The engine with its default capital and commission.\<close>

definition default_engine :: BacktestingEngine where
  "default_engine = example_engine 10000 0.001"

text \<open>
  The run of the default engine over \<open>rebound_bars\<close> with the last-move strategy:
  190 shares bought at 50 on bar 50 and sold at 60 on bar 51.
\<close>

definition long_trade :: Trade where
  "long_trade =
     \<lparr>entry_date = 4320000, exit_date = None, entry_price = 50, exit_price = None,
      quantity = 190, trade_type = ''BUY'', strategy = ''rsi'', Trade.symbol = ''AAPL'',
      profit_loss = None, is_open = True\<rparr>"

definition sim_after_50 :: Sim where
  "sim_after_50 =
     \<lparr>st_trades = [long_trade], st_capital = 490.5, st_position = 1, st_entry_price = 50,
      st_entry_date = Some 4320000, st_equity_curve = [490.5],
      st_signals_correct = 1, st_total_signals = 1\<rparr>"

definition sim_after_51 :: Sim where
  "sim_after_51 =
     \<lparr>st_trades = [long_trade\<lparr>exit_price := Some 60, exit_date := Some 4406400,
                               is_open := False, profit_loss := Some 1879.1\<rparr>],
      st_capital = 2369.6, st_position = 0, st_entry_price = 50,
      st_entry_date = Some 4320000, st_equity_curve = [490.5, 2369.6],
      st_signals_correct = 1, st_total_signals = 1\<rparr>"

text \<open>
  The variables of the loop after the run of the default engine over
  \<open>same_day_bars 51\<close>: 190 shares bought at 50 on bar 50, the only bar simulated.
\<close>

definition sim_same_day :: Sim where
  "sim_same_day =
     \<lparr>st_trades = [long_trade\<lparr>entry_date := 0\<rparr>], st_capital = 490.5, st_position = 1,
      st_entry_price = 50, st_entry_date = Some 0, st_equity_curve = [490.5],
      st_signals_correct = 0, st_total_signals = 0\<rparr>"

text \<open>An engine with 62.5 of capital and a commission of a quarter of the amount traded.\<close>

definition costly_engine :: BacktestingEngine where
  "costly_engine = example_engine 62.5 0.25"

text \<open>\<open>n\<close> daily bars that all close at 100.\<close>

definition flat_bars :: "nat \<Rightarrow> Bar list" where
  "flat_bars n = map (\<lambda>k. bar_at (int k) 100) [0..<n]"

section \<open>Rounding to the nearest double\<close>

lemma pow2_powr: "pow2 k = 2 powr (of_int k)"
proof (cases "0 \<le> k")
  case True
  then have "2 powr (of_int k) = (2::real) powr (real (nat k))" by simp
  also have "\<dots> = 2 ^ nat k" by (simp add: powr_realpow)
  finally show ?thesis using True by (simp add: pow2_def)
next
  case False
  then have "(2::real) powr (of_int k) = 2 powr (- real (nat (- k)))" by simp
  also have "\<dots> = 1 / 2 powr (real (nat (- k)))" by (simp add: powr_minus divide_inverse)
  also have "\<dots> = 1 / 2 ^ nat (- k)" by (simp add: powr_realpow)
  finally show ?thesis using False by (simp add: pow2_def)
qed

lemma pow2_pos: "0 < pow2 k"
  by (simp add: pow2_powr)

lemma pow2_add: "pow2 (j + k) = pow2 j * pow2 k"
  by (simp add: pow2_powr powr_add)

lemma pow2_mono: "j \<le> k \<Longrightarrow> pow2 j \<le> pow2 k"
  by (simp add: pow2_powr)

lemma floor_log2:
  assumes "pow2 k \<le> x" and "x < pow2 (k + 1)"
  shows "\<lfloor>log 2 x\<rfloor> = k"
proof -
  have pos: "0 < x" using assms(1) pow2_pos[of k] by linarith
  have "of_int k \<le> log 2 x"
    using assms(1) pos by (simp add: le_log_iff pow2_powr)
  moreover have "log 2 x < of_int k + 1"
    using assms(2) pos by (simp add: log_less_iff pow2_powr)
  ultimately show ?thesis by (simp add: floor_eq_iff)
qed

lemma floor_log2_ge:
  assumes "pow2 k \<le> x"
  shows "k \<le> \<lfloor>log 2 x\<rfloor>"
proof -
  have pos: "0 < x" using assms pow2_pos[of k] by linarith
  have "of_int k \<le> log 2 x"
    using assms pos by (simp add: le_log_iff pow2_powr)
  then show ?thesis by (simp add: le_floor_iff)
qed

lemma binade_eq:
  assumes "pow2 k \<le> \<bar>x\<bar>" and "\<bar>x\<bar> < pow2 (k + 1)" and "- 1022 \<le> k"
  shows "binade x = k"
  using floor_log2[OF assms(1,2)] assms(3) by (simp add: binade_def)

lemma round_half_even_near:
  assumes "\<bar>y - of_int m\<bar> < 1 / 2"
  shows "round_half_even y = m"
proof (cases "of_int m \<le> y")
  case True
  then have "\<lfloor>y\<rfloor> = m" using assms by (simp add: floor_eq_iff abs_less_iff)
  then show ?thesis using assms True by (simp add: round_half_even_def Let_def abs_less_iff)
next
  case False
  then have f: "\<lfloor>y\<rfloor> = m - 1" using assms by (simp add: floor_eq_iff abs_less_iff)
  have "y - of_int (m - 1) > 1 / 2" using assms False by (simp add: abs_less_iff)
  then show ?thesis unfolding round_half_even_def Let_def f by simp
qed

lemma round_half_even_tie:
  "round_half_even (of_int n + 1 / 2) = (if even n then n else n + 1)"
proof -
  have "\<lfloor>of_int n + 1 / 2 :: real\<rfloor> = n" by (simp add: floor_eq_iff)
  then show ?thesis by (simp add: round_half_even_def Let_def)
qed

lemma round_half_even_ge_floor: "\<lfloor>y\<rfloor> \<le> round_half_even y"
  by (simp add: round_half_even_def Let_def)

lemma round_double_at:
  assumes "pow2 k \<le> \<bar>x\<bar>" and "\<bar>x\<bar> < pow2 (k + 1)" and "- 1022 \<le> k" and "k < 1023"
    and r: "round_half_even (x / pow2 (k - 52)) = m" and m: "\<bar>m\<bar> \<le> 2 ^ 53"
  shows "round_double x = Fin (of_int m * pow2 (k - 52))"
proof -
  have x0: "x \<noteq> 0" using assms(1) pow2_pos[of k] by auto
  have b: "binade x = k" using assms(1-3) by (rule binade_eq)
  have u: "0 < pow2 (k - 52)" by (rule pow2_pos)
  have "(of_int \<bar>m\<bar> :: real) \<le> of_int (2 ^ 53)" using m by (simp only: of_int_le_iff)
  then have mle: "\<bar>of_int m :: real\<bar> \<le> pow2 53" by (simp add: pow2_def)
  have "\<bar>of_int m * pow2 (k - 52)\<bar> = \<bar>of_int m\<bar> * pow2 (k - 52)"
    using u by (simp add: abs_mult)
  also have "\<dots> \<le> pow2 53 * pow2 (k - 52)" using mle u by (simp add: mult_right_mono)
  also have "\<dots> = pow2 (k + 1)"
  proof -
    have "53 + (k - 52) = k + 1" by simp
    then show ?thesis using pow2_add[of 53 "k - 52"] by (simp only:)
  qed
  also have "\<dots> \<le> pow2 1023" using assms(4) by (intro pow2_mono) simp
  also have "\<dots> < 2 ^ 1024" by (simp add: pow2_def)
  finally have "\<not> 2 ^ 1024 \<le> \<bar>of_int m * pow2 (k - 52)\<bar>" by simp
  then show ?thesis using x0 by (simp add: round_double_def b r Let_def)
qed

lemma round_double_value:
  assumes "pow2 k \<le> \<bar>x\<bar>" and "\<bar>x\<bar> < pow2 (k + 1)" and "- 1022 \<le> k" and "k < 1023"
    and "\<bar>x / pow2 (k - 52) - of_int m\<bar> < 1 / 2"
  shows "round_double x = Fin (of_int m * pow2 (k - 52))"
proof -
  have r: "round_half_even (x / pow2 (k - 52)) = m" using assms(5) by (rule round_half_even_near)
  have u: "0 < pow2 (k - 52)" by (rule pow2_pos)
  have "\<bar>of_int m\<bar> < \<bar>x\<bar> / pow2 (k - 52) + 1 / 2"
    using assms(5) u by (simp add: abs_less_iff abs_if field_simps split: if_splits)
  also have "\<dots> < pow2 (k + 1) / pow2 (k - 52) + 1 / 2"
    using assms(2) u by (simp add: divide_strict_right_mono)
  also have "pow2 (k + 1) / pow2 (k - 52) = pow2 53"
  proof -
    have "53 + (k - 52) = k + 1" by simp
    then have "pow2 (k + 1) = pow2 53 * pow2 (k - 52)"
      using pow2_add[of 53 "k - 52"] by (simp only:)
    then show ?thesis using u by simp
  qed
  finally have a: "\<bar>of_int m :: real\<bar> < pow2 53 + 1 / 2" .
  have "pow2 53 = of_int (2 ^ 53)" by (simp add: pow2_def)
  with a have "of_int \<bar>m\<bar> < (of_int (2 ^ 53 + 1) :: real)" by simp
  then have "\<bar>m\<bar> < 2 ^ 53 + 1" by (simp only: of_int_less_iff)
  then have "\<bar>m\<bar> \<le> 2 ^ 53" by simp
  with assms(1-4) r show ?thesis by (rule round_double_at)
qed

text \<open>A tie goes to the even neighbour, below or above.\<close>

lemma round_double_tie_down:
  assumes "pow2 k \<le> \<bar>x\<bar>" and "\<bar>x\<bar> < pow2 (k + 1)" and "- 1022 \<le> k" and "k < 1023"
    and "x / pow2 (k - 52) = of_int m + 1 / 2" and "even m" and "\<bar>m\<bar> \<le> 2 ^ 53"
  shows "round_double x = Fin (of_int m * pow2 (k - 52))"
proof -
  have "round_half_even (x / pow2 (k - 52)) = m"
    using assms(6) by (simp only: assms(5) round_half_even_tie if_True)
  with assms(1-4) show ?thesis using assms(7) by (rule round_double_at)
qed

lemma round_double_tie_up:
  assumes "pow2 k \<le> \<bar>x\<bar>" and "\<bar>x\<bar> < pow2 (k + 1)" and "- 1022 \<le> k" and "k < 1023"
    and "x / pow2 (k - 52) = of_int m - 1 / 2" and "even m" and "\<bar>m\<bar> \<le> 2 ^ 53"
  shows "round_double x = Fin (of_int m * pow2 (k - 52))"
proof -
  have "x / pow2 (k - 52) = of_int (m - 1) + 1 / 2" using assms(5) by simp
  moreover have "odd (m - 1)" using assms(6) by simp
  ultimately have "round_half_even (x / pow2 (k - 52)) = m"
    by (simp only: round_half_even_tie) simp
  with assms(1-4) show ?thesis using assms(7) by (rule round_double_at)
qed






text \<open>A magnitude of \<open>2 ^ 1024\<close> or more rounds to an infinity.\<close>

lemma round_double_overflow:
  assumes "2 ^ 1024 \<le> x"
  shows "round_double x = PosInf"
proof -
  have pos: "0 < x" using assms by (rule less_le_trans[rotated]) simp
  let ?k = "\<lfloor>log 2 x\<rfloor>"
  have "pow2 1024 \<le> x" using assms by (simp add: pow2_def)
  then have k: "1024 \<le> ?k" by (rule floor_log2_ge)
  then have b: "binade x = ?k" using pos by (simp add: binade_def)
  have "2 powr (of_int ?k) \<le> 2 powr (log 2 x)" by (simp add: of_int_floor_le)
  then have lo: "pow2 ?k \<le> x" using pos by (simp add: pow2_powr)
  let ?u = "pow2 (?k - 52)"
  have u: "0 < ?u" by (rule pow2_pos)
  have split: "pow2 ?k = pow2 52 * ?u"
  proof -
    have "52 + (?k - 52) = ?k" by simp
    then show ?thesis using pow2_add[of 52 "?k - 52"] by (simp only:)
  qed
  have "pow2 52 \<le> x / ?u" using lo u by (simp add: split pos_le_divide_eq)
  moreover have "pow2 52 = of_int (2 ^ 52)" by (simp add: pow2_def)
  ultimately have "(2 ^ 52 :: int) \<le> \<lfloor>x / ?u\<rfloor>" by (simp only: le_floor_iff)
  then have "(2 ^ 52 :: int) \<le> round_half_even (x / ?u)"
    using round_half_even_ge_floor[of "x / ?u"] by linarith
  then have "(of_int (2 ^ 52) :: real) \<le> of_int (round_half_even (x / ?u))"
    by (simp only: of_int_le_iff)
  then have "pow2 52 \<le> of_int (round_half_even (x / ?u))" by (simp add: pow2_def)
  then have "pow2 52 * ?u \<le> of_int (round_half_even (x / ?u)) * ?u"
    by (rule mult_right_mono) (use u in simp)
  then have "pow2 ?k \<le> of_int (round_half_even (x / ?u)) * ?u" by (simp only: split)
  moreover have "pow2 1024 \<le> pow2 ?k" using k by (rule pow2_mono)
  moreover have "pow2 1024 = 2 ^ 1024" by (simp add: pow2_def)
  ultimately have "2 ^ 1024 \<le> of_int (round_half_even (x / ?u)) * ?u" by linarith
  then have "2 ^ 1024 \<le> \<bar>of_int (round_half_even (x / ?u)) * ?u\<bar>" by linarith
  then show ?thesis using pos by (simp add: round_double_def b Let_def)
qed

lemma round_double_not_NaN: "round_double x \<noteq> NaN"
  by (simp add: round_double_def Let_def)

lemma round_half_even_nonpos: "y \<le> 0 \<Longrightarrow> round_half_even y \<le> 0"
proof -
  assume y: "y \<le> 0"
  have f: "\<lfloor>y\<rfloor> \<le> 0" using y by (simp add: floor_le_iff) 
  show ?thesis
  proof (cases "y = of_int \<lfloor>y\<rfloor>")
    case True
    then show ?thesis using f by (simp add: round_half_even_def Let_def)
  next
    case False
    moreover have "of_int \<lfloor>y\<rfloor> \<le> y" by (rule of_int_floor_le)
    ultimately have "of_int \<lfloor>y\<rfloor> < y" by linarith
    then have "(of_int \<lfloor>y\<rfloor> :: real) < 0" using y by linarith
    then have "\<lfloor>y\<rfloor> < 0" by (simp only: of_int_less_0_iff)
    then show ?thesis by (simp add: round_half_even_def Let_def)
  qed
qed

lemma round_double_nonpos:
  assumes "x \<le> 0"
  shows "round_double x = NegInf \<or> (\<exists>y\<le>0. round_double x = Fin y)"
proof (cases "x = 0")
  case True
  then show ?thesis by (simp add: round_double_def)
next
  case False
  let ?u = "pow2 (binade x - 52)"
  have "x / ?u \<le> 0" using assms pow2_pos[of "binade x - 52"] by (simp add: divide_le_0_iff)
  then have "round_half_even (x / ?u) \<le> 0" by (rule round_half_even_nonpos)
  then have "of_int (round_half_even (x / ?u)) * ?u \<le> 0"
    using pow2_pos[of "binade x - 52"] by (simp add: mult_le_0_iff)
  then show ?thesis using False assms by (auto simp: round_double_def Let_def)
qed


text \<open>
  The roundings that the statements and the example runs below go through. Each is the
  multiple \<open>m\<close> of the spacing of its binade \<open>k\<close> that lies nearest to the exact
  value.
\<close>

lemma double_0_95_literal: "round_double 0.95 = Fin double_0_95"
proof -
  have "round_double 0.95 = Fin (of_int 8556839292003942 * pow2 (- 1 - 52))"
    by (rule round_double_value) (simp_all add: pow2_def)
  then show ?thesis by (simp add: pow2_def double_0_95_def)
qed

lemma double_0_6_literal: "round_double 0.6 = Fin double_0_6"
proof -
  have "round_double 0.6 = Fin (of_int 5404319552844595 * pow2 (- 1 - 52))"
    by (rule round_double_value) (simp_all add: pow2_def)
  then show ?thesis by (simp add: pow2_def double_0_6_def)
qed

lemma double_0_4_literal: "round_double 0.4 = Fin double_0_4"
proof -
  have "round_double 0.4 = Fin (of_int 7205759403792794 * pow2 (- 2 - 52))"
    by (rule round_double_value) (simp_all add: pow2_def)
  then show ?thesis by (simp add: pow2_def double_0_4_def)
qed

lemma round_double_1: "round_double 1 = Fin 1"
proof -
  have "round_double 1 = Fin (of_int 4503599627370496 * pow2 (0 - 52))"
    by (rule round_double_value) (simp_all add: pow2_def)
  then show ?thesis by (simp add: pow2_def)
qed

lemma round_double_2: "round_double 2 = Fin 2"
proof -
  have "round_double 2 = Fin (of_int 4503599627370496 * pow2 (1 - 52))"
    by (rule round_double_value) (simp_all add: pow2_def)
  then show ?thesis by (simp add: pow2_def)
qed

lemma round_double_3: "round_double 3 = Fin 3"
proof -
  have "round_double 3 = Fin (of_int 6755399441055744 * pow2 (1 - 52))"
    by (rule round_double_value) (simp_all add: pow2_def)
  then show ?thesis by (simp add: pow2_def)
qed

lemma round_double_two_thirds:
  "round_double (2 / 3) = Fin (6004799503160661 / 9007199254740992)"
proof -
  have "round_double (2 / 3) = Fin (of_int 6004799503160661 * pow2 (- 1 - 52))"
    by (rule round_double_value) (simp_all add: pow2_def)
  then show ?thesis by (simp add: pow2_def)
qed

lemma round_double_three_quarters: "round_double (3 / 4) = Fin (3 / 4)"
proof -
  have "round_double (3 / 4) = Fin (of_int 6755399441055744 * pow2 (- 1 - 52))"
    by (rule round_double_value) (simp_all add: pow2_def)
  then show ?thesis by (simp add: pow2_def)
qed

text \<open>\<open>10000 * 0.95\<close> is 9500.0, and \<open>9500.0 / 50\<close> is 190.0.\<close>

lemma round_double_9500: "round_double (10000 * double_0_95) = Fin 9500"
proof -
  have "round_double (10000 * (4278419646001971 / 4503599627370496))
          = Fin (of_int 5222680231936000 * pow2 (13 - 52))"
    by (rule round_double_value) (simp_all add: pow2_def)
  then show ?thesis by (simp add: pow2_def double_0_95_def)
qed

lemma round_double_190: "round_double 190 = Fin 190"
proof -
  have "round_double 190 = Fin (of_int 6685030696878080 * pow2 (7 - 52))"
    by (rule round_double_value) (simp_all add: pow2_def)
  then show ?thesis by (simp add: pow2_def)
qed

text \<open>\<open>62.5 * 0.95\<close> is 59.375, and \<open>59.375 / 50\<close> is 1.1875.\<close>

lemma round_double_59_375: "round_double (62.5 * double_0_95) = Fin 59.375"
proof -
  have "round_double (62.5 * (4278419646001971 / 4503599627370496))
          = Fin (of_int 8356288371097600 * pow2 (5 - 52))"
    by (rule round_double_value) (simp_all add: pow2_def)
  then show ?thesis by (simp add: pow2_def double_0_95_def)
qed

lemma round_double_1_1875: "round_double (19 / 16) = Fin (19 / 16)"
proof -
  have "round_double (19 / 16) = Fin (of_int 5348024557502464 * pow2 (0 - 52))"
    by (rule round_double_value) (simp_all add: pow2_def)
  then show ?thesis by (simp add: pow2_def)
qed



text \<open>
  A vote on the threshold: the strengths 0.1 and 0.2 for BUY and 0.2 for HOLD, of weight
  1.0. The sum \<open>0.1 + 0.2\<close> is a tie between two doubles and goes to the upper one,
  0.30000000000000004; the total is a tie again and goes to 0.5; the ratio is
  0.6000000000000001, above the double 0.6.
\<close>

lemma round_double_0_1: "round_double (1 / 10) = Fin (3602879701896397 / 36028797018963968)"
proof -
  have "round_double (1 / 10) = Fin (of_int 7205759403792794 * pow2 (- 4 - 52))"
    by (rule round_double_value) (simp_all add: pow2_def)
  then show ?thesis by (simp add: pow2_def)
qed

lemma round_double_0_2: "round_double (1 / 5) = Fin (3602879701896397 / 18014398509481984)"
proof -
  have "round_double (1 / 5) = Fin (of_int 7205759403792794 * pow2 (- 3 - 52))"
    by (rule round_double_value) (simp_all add: pow2_def)
  then show ?thesis by (simp add: pow2_def)
qed

lemma round_double_0_1_again:
  "round_double (3602879701896397 / 36028797018963968)
     = Fin (3602879701896397 / 36028797018963968)"
proof -
  have "round_double (3602879701896397 / 36028797018963968)
          = Fin (of_int 7205759403792794 * pow2 (- 4 - 52))"
    by (rule round_double_value) (simp_all add: pow2_def)
  then show ?thesis by (simp add: pow2_def)
qed

lemma round_double_0_2_again:
  "round_double (3602879701896397 / 18014398509481984)
     = Fin (3602879701896397 / 18014398509481984)"
proof -
  have "round_double (3602879701896397 / 18014398509481984)
          = Fin (of_int 7205759403792794 * pow2 (- 3 - 52))"
    by (rule round_double_value) (simp_all add: pow2_def)
  then show ?thesis by (simp add: pow2_def)
qed

lemma round_double_0_3:
  "round_double (3602879701896397 / 36028797018963968 + 3602879701896397 / 18014398509481984)
     = Fin (1351079888211149 / 4503599627370496)"
proof -
  have "round_double
          (3602879701896397 / 36028797018963968 + 3602879701896397 / 18014398509481984)
          = Fin (of_int 5404319552844596 * pow2 (- 2 - 52))"
    by (rule round_double_tie_up) (simp_all add: pow2_def)
  then show ?thesis by (simp add: pow2_def)
qed

lemma round_double_0_3_again:
  "round_double (1351079888211149 / 4503599627370496)
     = Fin (1351079888211149 / 4503599627370496)"
proof -
  have "round_double (1351079888211149 / 4503599627370496)
          = Fin (of_int 5404319552844596 * pow2 (- 2 - 52))"
    by (rule round_double_value) (simp_all add: pow2_def)
  then show ?thesis by (simp add: pow2_def)
qed

lemma round_double_0_5:
  "round_double (1351079888211149 / 4503599627370496 + 3602879701896397 / 18014398509481984)
     = Fin (1 / 2)"
proof -
  have "round_double
          (1351079888211149 / 4503599627370496 + 3602879701896397 / 18014398509481984)
          = Fin (of_int 4503599627370496 * pow2 (- 1 - 52))"
    by (rule round_double_tie_down) (simp_all add: pow2_def)
  then show ?thesis by (simp add: pow2_def)
qed

lemma round_double_0_6_above:
  "round_double (1351079888211149 / 4503599627370496 / (1 / 2))
     = Fin (1351079888211149 / 2251799813685248)"
proof -
  have "round_double (1351079888211149 / 4503599627370496 / (1 / 2))
          = Fin (of_int 5404319552844596 * pow2 (- 1 - 52))"
    by (rule round_double_value) (simp_all add: pow2_def)
  then show ?thesis by (simp add: pow2_def)
qed

lemma vote_on_the_threshold:
  "fl_div
     (fl_add (fl_add (Fin 0) (fl_mul (Fin (1 / 10)) (Fin 1))) (fl_mul (Fin (1 / 5)) (Fin 1)))
     (fl_add
        (fl_add
           (fl_add (fl_add (Fin 0) (fl_mul (Fin (1 / 10)) (Fin 1))) (fl_mul (Fin (1 / 5)) (Fin 1)))
           (Fin 0))
        (fl_add (Fin 0) (fl_mul (Fin (1 / 5)) (Fin 1))))
     = Fin (1351079888211149 / 2251799813685248)
   \<and> fnum_lt (Fin double_0_6) (Fin (1351079888211149 / 2251799813685248))"
proof -
  have m1: "fl_mul (Fin (1 / 10)) (Fin 1) = Fin (3602879701896397 / 36028797018963968)"
    using round_double_0_1 by simp
  have m2: "fl_mul (Fin (1 / 5)) (Fin 1) = Fin (3602879701896397 / 18014398509481984)"
    using round_double_0_2 by simp
  have buy: "fl_add (fl_add (Fin 0) (Fin (3602879701896397 / 36028797018963968)))
               (Fin (3602879701896397 / 18014398509481984))
             = Fin (1351079888211149 / 4503599627370496)"
    by (simp only: fl_add.simps add_0 round_double_0_1_again round_double_0_3)
  have hold: "fl_add (Fin 0) (Fin (3602879701896397 / 18014398509481984))
              = Fin (3602879701896397 / 18014398509481984)"
    by (simp only: fl_add.simps add_0 round_double_0_2_again)
  have total: "fl_add (fl_add (Fin (1351079888211149 / 4503599627370496)) (Fin 0))
                 (Fin (3602879701896397 / 18014398509481984))
               = Fin (1 / 2)"
    by (simp only: fl_add.simps add_0_right round_double_0_3_again round_double_0_5)
  have ratio: "fl_div (Fin (1351079888211149 / 4503599627370496)) (Fin (1 / 2))
               = Fin (1351079888211149 / 2251799813685248)"
    using round_double_0_6_above by (simp add: fdiv_def)
  show ?thesis
    unfolding m1 m2 buy hold total ratio by (simp add: double_0_6_def)
qed

text \<open>
  A share count that rounding decides: \<open>10000 * 0.95 / 1055.5555555555557\<close>, the
  price being the double \<open>1160595607096889 / 2 ^ 40\<close>, is just below 9 as a real
  number and 9.0 as a double, so 9 shares are bought.
\<close>

lemma round_double_9:
  "round_double (9500 / (1160595607096889 / 1099511627776)) = Fin 9"
proof -
  have "round_double (9500 / (1160595607096889 / 1099511627776))
          = Fin (of_int 5066549580791808 * pow2 (3 - 52))"
    by (rule round_double_value) (simp_all add: pow2_def)
  then show ?thesis by (simp add: pow2_def)
qed

lemma nine_shares:
  "py_int (fl_div (fl_mul (Fin 10000) (Fin double_0_95))
             (Fin (1160595607096889 / 1099511627776))) = Inr 9
   \<and> \<lfloor>10000 * 0.95 / (1160595607096889 / 1099511627776 :: real)\<rfloor> = 8"
proof -
  have "fl_mul (Fin 10000) (Fin double_0_95) = Fin 9500"
    by (simp only: fl_mul.simps round_double_9500)
  moreover have "fl_div (Fin 9500) (Fin (1160595607096889 / 1099511627776)) = Fin 9"
    using round_double_9 by (simp add: fdiv_def)
  moreover have "\<lfloor>10000 * 0.95 / (1160595607096889 / 1099511627776 :: real)\<rfloor> = 8"
    by (simp add: floor_eq_iff)
  ultimately show ?thesis by (simp add: py_int_def)
qed

text \<open>
  The other way round: \<open>9999 * 0.95 / 95.95\<close> is 99 in exact decimal arithmetic; the
  doubles give 9499.05 for the product and 98.99999999999999 for the quotient, so 98
  shares are bought.
\<close>

lemma round_double_9499_05:
  "round_double (9999 * double_0_95) = Fin (2611078981956403 / 274877906944)"
proof -
  have "round_double (9999 * (4278419646001971 / 4503599627370496))
          = Fin (of_int 5222157963912806 * pow2 (13 - 52))"
    by (rule round_double_value) (simp_all add: pow2_def)
  then show ?thesis by (simp add: pow2_def double_0_95_def)
qed

lemma round_double_98_99:
  "round_double (2611078981956403 / 274877906944 / (6751881003846861 / 70368744177664))
     = Fin (6966505673588735 / 70368744177664)"
proof -
  have "round_double
          (2611078981956403 / 274877906944 / (6751881003846861 / 70368744177664))
          = Fin (of_int 6966505673588735 * pow2 (6 - 52))"
    by (rule round_double_value) (simp_all add: pow2_def)
  then show ?thesis by (simp add: pow2_def)
qed

lemma ninety_eight_shares:
  "py_int (fl_div (fl_mul (Fin 9999) (Fin double_0_95))
             (Fin (6751881003846861 / 70368744177664))) = Inr 98"
proof -
  have "fl_mul (Fin 9999) (Fin double_0_95) = Fin (2611078981956403 / 274877906944)"
    by (simp only: fl_mul.simps round_double_9499_05)
  moreover have "fl_div (Fin (2611078981956403 / 274877906944))
                   (Fin (6751881003846861 / 70368744177664))
                 = Fin (6966505673588735 / 70368744177664)"
    using round_double_98_99 by (simp add: fdiv_def)
  ultimately show ?thesis by (simp add: py_int_def floor_eq_iff)
qed

text \<open>
  A size that overflows: with a close of \<open>1e-320\<close>, which is 2024 times the smallest
  positive double, \<open>9500.0 / close\<close> is infinite and \<open>int\<close> raises.
\<close>

lemma tiny_close_overflows:
  "py_int (fl_div (fl_mul (Fin 10000) (Fin double_0_95)) (Fin (2024 * pow2 (- 1074))))
     = Inl OverflowError"
proof -
  have "fl_mul (Fin 10000) (Fin double_0_95) = Fin 9500"
    by (simp only: fl_mul.simps round_double_9500)
  moreover have "round_double (9500 / (2024 * pow2 (- 1074))) = PosInf"
    by (rule round_double_overflow) (simp add: pow2_def)
  moreover have "2024 * pow2 (- 1074) \<noteq> 0" using pow2_pos[of "- 1074"] by simp
  ultimately show ?thesis by (simp add: py_int_def fdiv_def)
qed

section \<open>Auxiliary facts\<close>

lemma those_map_set:
  "those (map f xs) = Some ys \<Longrightarrow> set ys = {y. \<exists>x\<in>set xs. f x = Some y}"
proof (induction xs arbitrary: ys)
  case Nil
  then show ?case by simp
next
  case (Cons x xs)
  then obtain y ys' where fx: "f x = Some y"
    and t: "those (map f xs) = Some ys'" and ys: "ys = y # ys'"
    by (auto split: option.splits)
  from Cons.IH[OF t] show ?case using fx ys by auto
qed

lemma those_map_length:
  "those (map f xs) = Some ys \<Longrightarrow> length ys = length xs"
proof (induction xs arbitrary: ys)
  case Nil
  then show ?case by simp
next
  case (Cons x xs)
  then show ?case by (auto split: option.splits)
qed

lemma those_map_defined:
  "\<forall>x\<in>set xs. f x \<noteq> None \<Longrightarrow> \<exists>ys. those (map f xs) = Some ys"
  by (induction xs) auto

lemma calculate_metrics_cases:
  assumes "calculate_metrics eng name symb ts eq sc tot = Inr r"
  obtains (empty) "r = create_empty_result name symb"
          "ts = [] \<or> filter (\<lambda>t. \<not> is_open t) ts = []"
  | (full) pls where "filter (\<lambda>t. \<not> is_open t) ts \<noteq> []"
      "those (map profit_loss (filter (\<lambda>t. \<not> is_open t) ts)) = Some pls"
      "r = metrics eng name symb (filter (\<lambda>t. \<not> is_open t) ts) pls eq sc tot"
  using assms
  by (auto simp: calculate_metrics_def Let_def split: if_splits option.splits)

section \<open>Closing a trade\<close>

text \<open>
  C6. Closing a long trade (one whose \<open>trade_type\<close> is \<open>'BUY'\<close>) at a given exit
  price and time sets its realized profit or loss to
  \<open>(exit_price - entry_price) * quantity\<close> less the commission
  \<open>(entry_price + exit_price) * quantity * commission\<close>, marks it closed and records
  the exit price and time; the entry side of the trade is left as it was.
\<close>

theorem close_position_long:
  assumes "trade_type trade = ''BUY''"
  shows "profit_loss (close_position eng trade p d)
           = Some ((p - entry_price trade) * of_int (quantity trade)
                   - (entry_price trade + p) * of_int (quantity trade) * commission eng)
         \<and> \<not> is_open (close_position eng trade p d)
         \<and> exit_date (close_position eng trade p d) = Some d
         \<and> exit_price (close_position eng trade p d) = Some p
         \<and> entry_price (close_position eng trade p d) = entry_price trade
         \<and> entry_date (close_position eng trade p d) = entry_date trade
         \<and> quantity (close_position eng trade p d) = quantity trade"
  using assms by (simp add: close_position_def Let_def)

text \<open>
  A hundred shares bought at 50 and sold at 60 with a commission of one per mille:
  1000 gross, 11 of commission.
\<close>

theorem close_position_long_witness:
  "profit_loss
     (close_position (example_engine 10000 0.001)
        \<lparr>entry_date = 0, exit_date = None, entry_price = 50, exit_price = None,
         quantity = 100, trade_type = ''BUY'', strategy = ''rsi'', Trade.symbol = ''AAPL'',
         profit_loss = None, is_open = True\<rparr>
        60 86400)
   = Some 989"
proof -
  let ?t = "\<lparr>entry_date = 0, exit_date = None, entry_price = 50, exit_price = None,
         quantity = 100, trade_type = ''BUY'', strategy = ''rsi'', Trade.symbol = ''AAPL'',
         profit_loss = None, is_open = True\<rparr>"
  have "trade_type ?t = ''BUY''" by simp
  from close_position_long[OF this, of "example_engine 10000 0.001" 60 86400]
  show ?thesis by (simp add: example_engine_def)
qed


section \<open>The loop keeps its variables consistent\<close>

lemma sim_ok_initial: "sim_ok (initial_sim eng)"
  by (simp add: sim_ok_def initial_sim_def)

lemma close_position_fields:
  "\<not> is_open (close_position eng t p d)"
  "profit_loss (close_position eng t p d) \<noteq> None"
  "trade_type (close_position eng t p d) = trade_type t"
  by (simp_all add: close_position_def Let_def)

lemma track_accuracy_fields:
  "st_trades (track_accuracy data i sig p s) = st_trades s"
  "st_capital (track_accuracy data i sig p s) = st_capital s"
  "st_position (track_accuracy data i sig p s) = st_position s"
  "st_equity_curve (track_accuracy data i sig p s) = st_equity_curve s"
  by (simp_all add: track_accuracy_def Let_def)

lemma track_accuracy_counts:
  "st_signals_correct s \<le> st_total_signals s \<Longrightarrow>
   st_signals_correct (track_accuracy data i sig p s)
     \<le> st_total_signals (track_accuracy data i sig p s)"
  by (simp add: track_accuracy_def Let_def)

lemma execute_signal_counts:
  "execute_signal eng symb name sig p d s = Inr s' \<Longrightarrow>
   st_signals_correct s' = st_signals_correct s \<and> st_total_signals s' = st_total_signals s
   \<and> st_equity_curve s' = st_equity_curve s"
  by (auto simp: execute_signal_def close_last_def open_long_def Let_def
           split: if_splits sum.splits option.splits)

lemma execute_signal_ok:
  assumes "execute_signal eng symb name sig p d s = Inr s'"
    and "st_position s = 0 \<or> st_position s = 1"
    and "st_position s = 1 \<longrightarrow> st_trades s \<noteq> [] \<and> is_open (last (st_trades s))"
    and "\<forall>t\<in>set (st_trades s). trade_type t = ''BUY''
            \<and> (\<not> is_open t \<longrightarrow> profit_loss t \<noteq> None)"
  shows "(st_position s' = 0 \<or> st_position s' = 1)
     \<and> (st_position s' = 1 \<longrightarrow> st_trades s' \<noteq> [] \<and> is_open (last (st_trades s')))
     \<and> (\<forall>t\<in>set (st_trades s'). trade_type t = ''BUY''
            \<and> (\<not> is_open t \<longrightarrow> profit_loss t \<noteq> None))"
proof -
  have old: "\<And>t. t \<in> set (butlast (st_trades s)) \<Longrightarrow>
               trade_type t = ''BUY'' \<and> (\<not> is_open t \<longrightarrow> profit_loss t \<noteq> None)"
    using assms(4) by (meson in_set_butlastD)
  have lst: "st_trades s \<noteq> [] \<Longrightarrow> trade_type (last (st_trades s)) = ''BUY''"
    using assms(4) by simp
  show ?thesis
    using assms(1-3) old lst assms(4)
    by (auto simp: execute_signal_def close_last_def open_long_def Let_def
                   close_position_fields
             split: if_splits sum.splits option.splits)
qed

lemma bar_step_ok:
  assumes "bar_step eng strat symb name data i s = Inr s'" and "sim_ok s"
  shows "sim_ok s'"
proof -
  let ?p = "Close (last (take (i + 1) data))"
  let ?d = "index (last (take (i + 1) data))"
  let ?sig = "generate_signal strat (take (i + 1) data)"
  let ?s1 = "track_accuracy data i ?sig ?p s"
  from assms(1) obtain s2 where
    ex: "execute_signal eng symb name ?sig ?p ?d ?s1 = Inr s2"
    and s': "s' = s2\<lparr>st_equity_curve := st_equity_curve s2 @ [current_equity ?p s2]\<rparr>"
    by (auto simp: bar_step_def Let_def split: sum.splits)
  have ok1: "(st_position s2 = 0 \<or> st_position s2 = 1)
     \<and> (st_position s2 = 1 \<longrightarrow> st_trades s2 \<noteq> [] \<and> is_open (last (st_trades s2)))
     \<and> (\<forall>t\<in>set (st_trades s2). trade_type t = ''BUY''
            \<and> (\<not> is_open t \<longrightarrow> profit_loss t \<noteq> None))"
    using execute_signal_ok[OF ex] assms(2) by (simp add: sim_ok_def track_accuracy_fields)
  have cnt: "st_signals_correct s2 \<le> st_total_signals s2"
    using execute_signal_counts[OF ex] track_accuracy_counts[of s data i ?sig ?p] assms(2)
    by (simp add: sim_ok_def)
  show ?thesis using ok1 cnt s' by (auto simp: sim_ok_def current_equity_def)
qed

lemma run_bars_ok:
  "run_bars eng strat symb name data idxs s = Inr s' \<Longrightarrow> sim_ok s \<Longrightarrow> sim_ok s'"
proof (induction idxs arbitrary: s)
  case Nil
  then show ?case by simp
next
  case (Cons i rest)
  then show ?case by (auto split: sum.splits dest: bar_step_ok)
qed

lemma bar_step_equity_length:
  "bar_step eng strat symb name data i s = Inr s' \<Longrightarrow>
   length (st_equity_curve s') = Suc (length (st_equity_curve s))"
  by (auto simp: bar_step_def Let_def track_accuracy_fields split: sum.splits
           dest!: execute_signal_counts)

lemma run_bars_equity_length:
  "run_bars eng strat symb name data idxs s = Inr s' \<Longrightarrow>
   length (st_equity_curve s') = length (st_equity_curve s) + length idxs"
proof (induction idxs arbitrary: s)
  case Nil
  then show ?case by simp
next
  case (Cons i rest)
  then show ?case by (auto split: sum.splits dest!: bar_step_equity_length)
qed

text \<open>
  C7. After any number of bars of any run, whatever the series and the strategy, the
  position is 0 (flat) or 1 (long), never -1. The states of a run are those the loop
  reaches from the initial variables over a prefix of \<open>range(50, len(data))\<close>; the
  statement holds for every list of indices. The position being what the
  \<open>if position == -1\<close> of the BUY transition tests at the next bar, that branch is
  never taken.
\<close>

theorem position_never_short:
  assumes "run_bars eng strat symb name data idxs (initial_sim eng) = Inr s"
  shows "(st_position s = 0 \<or> st_position s = 1) \<and> st_position s \<noteq> - 1"
  using run_bars_ok[OF assms sim_ok_initial] by (auto simp: sim_ok_def)

section \<open>The outcomes of a run\<close>

lemma get_strategy_None_iff:
  "get_strategy lib mgr name = None \<longleftrightarrow> name \<notin> set strategy_ids"
  by (simp add: get_strategy_def strategy_ids_def)

lemma close_remaining_closed:
  "ts \<noteq> [] \<Longrightarrow> filter (\<lambda>t. \<not> is_open t) (close_remaining eng data ts) \<noteq> []"
proof -
  assume ne: "ts \<noteq> []"
  have "close_remaining eng data ts \<noteq> [] \<and> \<not> is_open (last (close_remaining eng data ts))"
    using ne by (simp add: close_remaining_def Let_def close_position_fields)
  then have "last (close_remaining eng data ts)
               \<in> set (filter (\<lambda>t. \<not> is_open t) (close_remaining eng data ts))"
    by simp
  then show ?thesis by (metis empty_iff list.set(1))
qed

lemma close_remaining_Nil: "close_remaining eng data [] = []"
  by (simp add: close_remaining_def)

text \<open>Every result of \<open>run_backtest\<close> is the empty result or the result of a simulation.\<close>

lemma run_backtest_result:
  assumes "fst (run_backtest lib eng symb data name sd ed) = Inr r"
  obtains (empty) "r = create_empty_result name symb"
  | (simulated) strat where "50 \<le> length (filter_dates sd ed data)"
      "simulate eng strat symb name (filter_dates sd ed data) = Inr r"
  using assms
  by (auto simp: run_backtest_def Let_def split: if_splits option.splits sum.splits)

lemma simulate_result:
  assumes "simulate eng strat symb name data = Inr r"
  obtains s where
    "run_bars eng strat symb name data [50..<length data] (initial_sim eng) = Inr s"
    "calculate_metrics eng name symb (close_remaining eng data (st_trades s))
       (st_equity_curve s) (st_signals_correct s) (st_total_signals s) = Inr r"
  using assms by (auto simp: simulate_def split: sum.splits)

lemma empty_result_fields:
  "total_trades (create_empty_result name symb) = 0"
  "equity_curve (create_empty_result name symb) = []"
  "profit_factor (create_empty_result name symb) = 0"
  "win_rate (create_empty_result name symb) = 0"
  "signals_accuracy (create_empty_result name symb) = 0"
  "max_drawdown (create_empty_result name symb) = Fin 0"
  "trades (create_empty_result name symb) = []"
  by (simp_all add: create_empty_result_def)

lemma metrics_fields:
  "total_trades (metrics eng name symb cl pls eq sc tot) = length cl"
  "equity_curve (metrics eng name symb cl pls eq sc tot) = eq"
  "trades (metrics eng name symb cl pls eq sc tot) = cl"
  "max_drawdown (metrics eng name symb cl pls eq sc tot) = series_min (drawdown eq)"
  by (simp_all add: metrics_def Let_def)


lemma last_take_Suc: "i < length xs \<Longrightarrow> last (take (i + 1) xs) = xs ! i"
  by (simp add: take_Suc_conv_app_nth)

text \<open>
  C1 (as amended). A run that returns a result with at least one trade has one equity
  point per simulated bar, \<open>len(bars) - 50\<close> of them, counted after the date filter.
  A run that returns a result without a trade returns the empty result, whose equity
  curve has no point, however many bars were simulated.
\<close>

theorem equity_curve_length:
  assumes "fst (run_backtest lib eng symb data name sd ed) = Inr r"
  shows "length (equity_curve r)
           = (if total_trades r = 0 then 0 else length (filter_dates sd ed data) - 50)"
  using assms
proof (cases rule: run_backtest_result)
  case empty
  then show ?thesis by (simp add: empty_result_fields)
next
  case (simulated strat)
  let ?data = "filter_dates sd ed data"
  from simulated(2) obtain s where
    run: "run_bars eng strat symb name ?data [50..<length ?data] (initial_sim eng) = Inr s"
    and cm: "calculate_metrics eng name symb (close_remaining eng ?data (st_trades s))
       (st_equity_curve s) (st_signals_correct s) (st_total_signals s) = Inr r"
    by (rule simulate_result)
  have len: "length (st_equity_curve s) = length ?data - 50"
    using run_bars_equity_length[OF run] by (simp add: initial_sim_def)
  from cm show ?thesis
  proof (cases rule: calculate_metrics_cases)
    case empty
    then show ?thesis by (simp add: empty_result_fields)
  next
    case (full pls)
    then show ?thesis using len by (simp add: metrics_fields)
  qed
qed

text \<open>
  C9. In every result of \<open>run_backtest\<close> whose ledger of closed trades holds no trade
  with a negative profit or loss, the profit factor is 0, whatever the profits are.
\<close>

theorem profit_factor_without_losses:
  assumes "fst (run_backtest lib eng symb data name sd ed) = Inr r"
    and "\<forall>t\<in>set (trades r). \<forall>pl. profit_loss t = Some pl \<longrightarrow> \<not> pl < 0"
  shows "profit_factor r = 0"
  using assms(1)
proof (cases rule: run_backtest_result)
  case empty
  then show ?thesis by (simp add: empty_result_fields)
next
  case (simulated strat)
  from simulated(2) obtain s where
    run: "run_bars eng strat symb name (filter_dates sd ed data)
            [50..<length (filter_dates sd ed data)] (initial_sim eng) = Inr s"
    and cm: "calculate_metrics eng name symb
       (close_remaining eng (filter_dates sd ed data) (st_trades s))
       (st_equity_curve s) (st_signals_correct s) (st_total_signals s) = Inr r"
    by (rule simulate_result)
  from cm show ?thesis
  proof (cases rule: calculate_metrics_cases)
    case empty
    then show ?thesis by (simp add: empty_result_fields)
  next
    case (full pls)
    have "filter (\<lambda>p. p < 0) pls = []"
      using those_map_set[OF full(2)] assms(2) full(3)
      by (auto simp: filter_empty_conv metrics_fields)
    then show ?thesis using full(3) by (simp add: metrics_def Let_def)
  qed
qed

text \<open>
  C5. With fewer than 50 bars left by the date filter, or with a strategy id that is not
  a key of the registry, \<open>run_backtest\<close> returns the empty result and raises nothing:
  every count and every number in it is 0, its ledger and its equity curve are empty.
  The engine is left as it was.
\<close>

theorem run_backtest_empty_result:
  assumes "length (filter_dates sd ed data) < 50 \<or> name \<notin> set strategy_ids"
  shows "run_backtest lib eng symb data name sd ed = (Inr (create_empty_result name symb), eng)
     \<and> create_empty_result name symb
         = \<lparr>strategy_name = name, symbol = symb, total_trades = 0, winning_trades = 0,
            losing_trades = 0, win_rate = 0, total_return = Fin 0, sharpe_ratio = Fin 0,
            max_drawdown = Fin 0, avg_trade_duration = 0, profit_factor = 0,
            total_fees = 0, net_profit = 0, signals_accuracy = 0, trades = [],
            equity_curve = []\<rparr>"
proof -
  have "get_strategy lib (strategy_manager eng) name = None" if "name \<notin> set strategy_ids"
    using that by (simp add: get_strategy_None_iff)
  then show ?thesis using assms
    by (auto simp: run_backtest_def Let_def create_empty_result_def)
qed

section \<open>What can fail\<close>

lemma close_last_ok:
  assumes "sim_ok s" "st_position s = 1"
  shows "\<exists>s'. close_last eng p d s = Inr s'"
  using assms
  by (auto simp: close_last_def sim_ok_def Let_def close_position_def split: option.splits)

lemma open_long_error:
  assumes "open_long eng symb name p d s = Inl e"
  shows "py_int (fl_div (fl_mul (Fin (st_capital s)) (Fin double_0_95)) (Fin p)) = Inl e"
  using assms
  by (auto simp: open_long_def Let_def split: sum.splits if_splits)

lemma execute_signal_error:
  assumes "execute_signal eng symb name sig p d s = Inl e"
    and "st_position s = 0 \<or> st_position s = 1"
    and "st_position s = 1 \<longrightarrow> st_trades s \<noteq> []"
  shows "sig = BUY
     \<and> py_int (fl_div (fl_mul (Fin (st_capital s)) (Fin double_0_95)) (Fin p)) = Inl e"
  using assms
  by (auto simp: execute_signal_def close_last_def Let_def close_position_def
           split: if_splits sum.splits option.splits dest: open_long_error)

lemma bar_step_error:
  assumes "bar_step eng strat symb name data i s = Inl e" and "sim_ok s"
    and "i < length data"
  shows "generate_signal strat (take (i + 1) data) = BUY
     \<and> py_int (fl_div (fl_mul (Fin (st_capital s)) (Fin double_0_95))
                 (Fin (Close (data ! i)))) = Inl e"
proof -
  let ?p = "Close (last (take (i + 1) data))"
  let ?sig = "generate_signal strat (take (i + 1) data)"
  from assms(1) have
    "execute_signal eng symb name ?sig ?p (index (last (take (i + 1) data)))
       (track_accuracy data i ?sig ?p s) = Inl e"
    by (auto simp: bar_step_def Let_def split: sum.splits)
  from execute_signal_error[OF this] assms(2)
  have "?sig = BUY
     \<and> py_int (fl_div (fl_mul (Fin (st_capital s)) (Fin double_0_95)) (Fin ?p)) = Inl e"
    by (simp add: sim_ok_def track_accuracy_fields)
  then show ?thesis using last_take_Suc[OF assms(3)] by simp
qed

text \<open>
  An exception of the loop is the exception of \<open>int\<close> at the first bar where the
  strategy says BUY and the size of the position is not a finite number.
\<close>

lemma run_bars_error:
  assumes "run_bars eng strat symb name data idxs s = Inl e" and "sim_ok s"
    and "\<forall>i\<in>set idxs. i < length data"
  shows "\<exists>pre i post s'. idxs = pre @ i # post
           \<and> run_bars eng strat symb name data pre s = Inr s'
           \<and> generate_signal strat (take (i + 1) data) = BUY
           \<and> py_int (fl_div (fl_mul (Fin (st_capital s')) (Fin double_0_95))
                       (Fin (Close (data ! i)))) = Inl e"
  using assms
proof (induction idxs arbitrary: s)
  case Nil
  then show ?case by simp
next
  case (Cons i rest)
  show ?case
  proof (cases "bar_step eng strat symb name data i s")
    case (Inl e')
    with Cons.prems have "e' = e" by simp
    with Inl bar_step_error[of eng strat symb name data i s e] Cons.prems
    have "generate_signal strat (take (i + 1) data) = BUY
       \<and> py_int (fl_div (fl_mul (Fin (st_capital s)) (Fin double_0_95))
                   (Fin (Close (data ! i)))) = Inl e"
      by simp
    moreover have "i # rest = [] @ i # rest" by simp
    moreover have "run_bars eng strat symb name data [] s = Inr s" by simp
    ultimately show ?thesis by blast
  next
    case (Inr s1)
    with Cons.prems have "run_bars eng strat symb name data rest s1 = Inl e" by simp
    moreover have "sim_ok s1" using bar_step_ok[OF Inr] Cons.prems by simp
    ultimately obtain pre j post s' where
      r: "rest = pre @ j # post"
      and q: "run_bars eng strat symb name data pre s1 = Inr s'"
      and g: "generate_signal strat (take (j + 1) data) = BUY"
      and f: "py_int (fl_div (fl_mul (Fin (st_capital s')) (Fin double_0_95))
                        (Fin (Close (data ! j)))) = Inl e"
      using Cons.IH[of s1] Cons.prems by auto
    have "i # rest = (i # pre) @ j # post" using r by simp
    moreover have "run_bars eng strat symb name data (i # pre) s = Inr s'"
      using Inr q by simp
    ultimately show ?thesis using g f by blast
  qed
qed

lemma py_int_error: "py_int x = Inl e \<Longrightarrow> e = OverflowError \<or> e = ValueError"
  by (auto simp: py_int_def split: fnum.splits)

lemma upt_split:
  assumes "[a..<b] = pre @ i # post"
  shows "pre = [a..<i] \<and> a \<le> i \<and> i < b"
proof -
  have len: "length pre < b - a"
    using arg_cong[OF assms, of length] by simp
  have "[a..<b] ! length pre = i" using assms by simp
  then have i: "i = a + length pre" using len by simp
  have "pre = take (length pre) [a..<b]" using assms by simp
  also have "\<dots> = [a..<a + length pre]" using len by (simp add: take_upt)
  finally show ?thesis using i len by simp
qed

lemma close_remaining_pnl:
  assumes "\<forall>t\<in>set ts. \<not> is_open t \<longrightarrow> profit_loss t \<noteq> None"
  shows "\<forall>t\<in>set (close_remaining eng data ts). \<not> is_open t \<longrightarrow> profit_loss t \<noteq> None"
proof -
  have "\<And>t. t \<in> set (butlast ts) \<Longrightarrow> \<not> is_open t \<longrightarrow> profit_loss t \<noteq> None"
    using assms by (meson in_set_butlastD)
  then show ?thesis using assms
    by (auto simp: close_remaining_def Let_def close_position_def)
qed

lemma calculate_metrics_no_error:
  assumes "\<forall>t\<in>set ts. \<not> is_open t \<longrightarrow> profit_loss t \<noteq> None"
  shows "\<exists>r. calculate_metrics eng name symb ts eq sc tot = Inr r"
proof -
  have "\<forall>t\<in>set (filter (\<lambda>t. \<not> is_open t) ts). profit_loss t \<noteq> None"
    using assms by simp
  from those_map_defined[OF this] show ?thesis
    by (auto simp: calculate_metrics_def Let_def)
qed

lemma run_bars_returns:
  assumes "run_bars eng strat symb name data idxs (initial_sim eng) = Inr s"
  shows "\<exists>r. calculate_metrics eng name symb (close_remaining eng data (st_trades s))
               (st_equity_curve s) (st_signals_correct s) (st_total_signals s) = Inr r"
proof -
  have "sim_ok s" using run_bars_ok[OF assms sim_ok_initial] .
  then have "\<forall>t\<in>set (st_trades s). \<not> is_open t \<longrightarrow> profit_loss t \<noteq> None"
    by (simp add: sim_ok_def)
  then have "\<forall>t\<in>set (close_remaining eng data (st_trades s)).
               \<not> is_open t \<longrightarrow> profit_loss t \<noteq> None"
    by (rule close_remaining_pnl)
  then show ?thesis by (rule calculate_metrics_no_error)
qed

lemma simulate_error:
  assumes "simulate eng strat symb name data = Inl e"
  shows "run_bars eng strat symb name data [50..<length data] (initial_sim eng) = Inl e"
proof (cases "run_bars eng strat symb name data [50..<length data] (initial_sim eng)")
  case (Inl e')
  with assms show ?thesis by (simp add: simulate_def)
next
  case (Inr s)
  from run_bars_returns[OF Inr] show ?thesis using assms Inr by (auto simp: simulate_def)
qed

lemma run_backtest_error_origin:
  assumes "fst (run_backtest lib eng symb data name sd ed) = Inl e"
  shows "(e = OverflowError \<or> e = ValueError)
     \<and> (\<exists>strat i s. 50 \<le> i \<and> i < length (filter_dates sd ed data)
           \<and> run_bars eng strat symb name (filter_dates sd ed data) [50..<i] (initial_sim eng)
               = Inr s
           \<and> generate_signal strat (take (i + 1) (filter_dates sd ed data)) = BUY
           \<and> py_int (fl_div (fl_mul (Fin (st_capital s)) (Fin double_0_95))
                       (Fin (Close (filter_dates sd ed data ! i)))) = Inl e)"
proof -
  let ?bars = "filter_dates sd ed data"
  from assms obtain strat where "simulate eng strat symb name ?bars = Inl e"
    by (auto simp: run_backtest_def Let_def split: if_splits option.splits)
  then have "run_bars eng strat symb name ?bars [50..<length ?bars] (initial_sim eng) = Inl e"
    by (rule simulate_error)
  from run_bars_error[OF this sim_ok_initial] obtain pre i post s where
    sp: "[50..<length ?bars] = pre @ i # post"
    and run: "run_bars eng strat symb name ?bars pre (initial_sim eng) = Inr s"
    and sig: "generate_signal strat (take (i + 1) ?bars) = BUY"
    and f: "py_int (fl_div (fl_mul (Fin (st_capital s)) (Fin double_0_95))
                     (Fin (Close (?bars ! i)))) = Inl e"
    by auto
  from upt_split[OF sp] have "pre = [50..<i]" "50 \<le> i" "i < length ?bars" by simp_all
  with run sig f py_int_error[OF f] show ?thesis by blast
qed

text \<open>
  C2 (as amended). \<open>run_backtest\<close> does not look at the order of the timestamps and
  has no validation error to raise. Every series that keeps at least 50 bars after the
  date filter, whatever the order of its timestamps and whether or not they repeat, goes
  through the loop with a registered strategy, bar by bar in the order given, from bar 50
  to the last: the call raises exactly when the loop does, there being no exception
  before or after it, and when the loop ends the call returns the result computed from
  the loop's final variables.
\<close>

theorem run_backtest_simulates_as_given:
  assumes "50 \<le> length (filter_dates sd ed data)"
    and "get_strategy lib (strategy_manager eng) name = Some found"
  shows "(let bars = filter_dates sd ed data;
              strat = (if name = ''ml_rf''
                       then ml_strategy lib
                              (ml_rf (train_ml_strategies lib (strategy_manager eng) symb bars))
                       else found);
              loop = run_bars eng strat symb name bars [50..<length bars] (initial_sim eng);
              outcome = fst (run_backtest lib eng symb data name sd ed)
          in (\<forall>e. outcome = Inl e \<longleftrightarrow> loop = Inl e)
           \<and> (\<forall>s. loop = Inr s \<longrightarrow>
                 (\<exists>r. outcome = Inr r
                    \<and> calculate_metrics eng name symb (close_remaining eng bars (st_trades s))
                        (st_equity_curve s) (st_signals_correct s) (st_total_signals s)
                      = Inr r)))"
proof -
  let ?bars = "filter_dates sd ed data"
  let ?strat = "if name = ''ml_rf''
                then ml_strategy lib
                       (ml_rf (train_ml_strategies lib (strategy_manager eng) symb ?bars))
                else found"
  let ?loop = "run_bars eng ?strat symb name ?bars [50..<length ?bars] (initial_sim eng)"
  have out: "fst (run_backtest lib eng symb data name sd ed)
               = simulate eng ?strat symb name ?bars"
    using assms by (simp add: run_backtest_def Let_def)
  have err: "simulate eng ?strat symb name ?bars = Inl e \<longleftrightarrow> ?loop = Inl e" for e
    using simulate_error[of eng ?strat symb name ?bars e]
    by (auto simp: simulate_def)
  have res: "\<exists>r. simulate eng ?strat symb name ?bars = Inr r
               \<and> calculate_metrics eng name symb (close_remaining eng ?bars (st_trades s))
                   (st_equity_curve s) (st_signals_correct s) (st_total_signals s) = Inr r"
    if "?loop = Inr s" for s
    using run_bars_returns[OF that] that by (auto simp: simulate_def)
  show ?thesis unfolding Let_def out using err res by blast
qed

section \<open>The strength of the forest\<close>

text \<open>
  C3 (as amended). For a trained forest, \<open>get_signal_strength\<close> returns the class-1
  probability as the classifier gives it, without the boost, and 0.5 when there is no
  prepared row or \<open>predict_proba\<close> fails. The probability that \<open>generate_signal\<close>
  compares with its thresholds is that class-1 probability if the RSI of the last
  prepared row is 30 or more, and \<open>min(1.0, probability * 1.5)\<close> if it is below 30;
  on the paths where the strength is the default 0.5, \<open>generate_signal\<close> returns HOLD
  without a comparison.
\<close>

theorem ml_strength_unboosted:
  assumes "is_trained ml"
  shows "(let prepared_data = prepare_features lib data;
              strength = MLRandomForestStrategy_get_signal_strength lib ml data;
              compared = buy_probability lib ml data;
              signal = MLRandomForestStrategy_generate_signal lib ml data
          in if prepared_data = [] then strength = 0.5 \<and> compared = None \<and> signal = HOLD
             else
               case model ml (predictor_values (last prepared_data)) of
                 None \<Rightarrow> strength = 0.5 \<and> compared = None \<and> signal = HOLD
               | Some prediction_proba \<Rightarrow>
                   strength = class1_probability prediction_proba
                   \<and> compared = Some (if RSI (last prepared_data) < 30
                                      then boosted strength else Fin strength)
                   \<and> signal = (if fnum_le (Fin double_0_6) (the compared) then BUY
                               else if fnum_le (the compared) (Fin double_0_4) then SELL
                               else HOLD))"
  using assms
  by (simp add: buy_probability_def MLRandomForestStrategy_get_signal_strength_def
        MLRandomForestStrategy_generate_signal_def Let_def split: option.splits)

lemma flat_bars_facts:
  "length (flat_bars n) = n"
  "i < n \<Longrightarrow> flat_bars n ! i = bar_at (int i) 100"
  by (simp_all add: flat_bars_def)

lemma Close_Ratio_defined: "Close (data ! i) \<noteq> 0 \<Longrightarrow> Close_Ratio horizon data i \<noteq> NaN"
  by (simp add: Close_Ratio_def fdiv_def round_double_not_NaN)

text \<open>A frame of 1002 rows has one complete row, row 1000.\<close>

lemma prepare_flat_bars:
  "prepare_features lib (flat_bars 1002) = [feature_row lib (flat_bars 1002) 1000]"
proof -
  have "[1000..<length (flat_bars 1002) - 1] = [1000]"
    by (simp add: flat_bars_facts upt_rec)
  moreover have "list_all (\<lambda>horizon. Close_Ratio horizon (flat_bars 1002) 1000 \<noteq> NaN) horizons"
    by (simp add: list_all_iff Close_Ratio_defined flat_bars_facts bar_at_def)
  ultimately show ?thesis by (simp add: prepare_features_def)
qed

text \<open>\<open>min(1.0, 0.5 * 1.5)\<close> is 0.75.\<close>

lemma boosted_half: "boosted (1 / 2) = Fin (3 / 4)"
proof -
  have "fl_mul (Fin (1 / 2)) (Fin 1.5) = Fin (3 / 4)"
    by (simp add: round_double_three_quarters)
  then show ?thesis by (simp add: boosted_def del: fl_mul.simps)
qed

text \<open>
  With an RSI of 20 and a class-1 probability of 0.5, the signal is decided on 0.75 (and
  is BUY) while the strength reported is 0.5.
\<close>

theorem ml_strength_counterexample:
  "is_trained even_forest
   \<and> buy_probability oversold_library even_forest (flat_bars 1002) = Some (Fin 0.75)
   \<and> MLRandomForestStrategy_generate_signal oversold_library even_forest (flat_bars 1002)
       = BUY
   \<and> MLRandomForestStrategy_get_signal_strength oversold_library even_forest
       (flat_bars 1002) = 0.5"
  by (simp add: buy_probability_def MLRandomForestStrategy_generate_signal_def
        MLRandomForestStrategy_get_signal_strength_def prepare_flat_bars feature_row_def
        oversold_library_def even_forest_def class1_probability_def Let_def boosted_half
        double_0_6_def)

theorem ml_strength_unboosted_witness:
  "is_trained even_forest
   \<and> MLRandomForestStrategy_get_signal_strength oversold_library even_forest
       (flat_bars 1002) = 0.5
   \<and> buy_probability oversold_library even_forest (flat_bars 1002)
       = Some (boosted (1 / 2))
   \<and> MLRandomForestStrategy_generate_signal oversold_library even_forest (flat_bars 1002)
       = BUY"
proof -
  have t: "is_trained even_forest" by (simp add: even_forest_def)
  have p: "prepare_features oversold_library (flat_bars 1002)
             = [feature_row oversold_library (flat_bars 1002) 1000]"
    by (rule prepare_flat_bars)
  have m: "model even_forest x = Some [0.5, 0.5]" for x by (simp add: even_forest_def)
  have r: "RSI (feature_row oversold_library (flat_bars 1002) 1000) < 30"
    by (simp add: feature_row_def oversold_library_def)
  have st: "MLRandomForestStrategy_get_signal_strength oversold_library even_forest
              (flat_bars 1002) = 1 / 2"
    by (simp add: MLRandomForestStrategy_get_signal_strength_def p m t
          class1_probability_def)
  from ml_strength_unboosted[OF t, of oversold_library "flat_bars 1002"] t show ?thesis
    by (simp add: Let_def p m r st class1_probability_def boosted_half double_0_6_def)
qed

section \<open>The composite's vote\<close>

lemma bucket_weight_members:
  "bucket_weight b
     (map snd (map (\<lambda>(g, w). (generate_signal g data,
                               fl_mul (Fin (get_signal_strength g data)) (Fin w))) members))
     (map fst (map (\<lambda>(g, w). (generate_signal g data,
                               fl_mul (Fin (get_signal_strength g data)) (Fin w))) members))
   = weighted_bucket b members data"
proof -
  have "map fst (filter (\<lambda>(s, sig). sig = b)
          (zip (map snd (map (\<lambda>(g, w). (generate_signal g data,
                  fl_mul (Fin (get_signal_strength g data)) (Fin w))) members))
               (map fst (map (\<lambda>(g, w). (generate_signal g data,
                  fl_mul (Fin (get_signal_strength g data)) (Fin w))) members))))
        = map (\<lambda>(g, w). fl_mul (Fin (get_signal_strength g data)) (Fin w))
            (filter (\<lambda>(g, w). generate_signal g data = b) members)"
    by (induction members) (auto simp: case_prod_beta)
  then show ?thesis unfolding bucket_weight_def weighted_bucket_def by (simp only:)
qed

lemma composite_by_members:
  "CompositeStrategy_generate_signal c data
     = (let members = zip (strategies c) (weights c);
            buy = weighted_bucket BUY members data;
            sell = weighted_bucket SELL members data;
            hold = weighted_bucket HOLD members data;
            total = fl_add (fl_add buy sell) hold
        in if total = Fin 0 then HOLD
           else if fnum_lt (Fin double_0_6) (fl_div buy total) then BUY
           else if fnum_lt (Fin double_0_6) (fl_div sell total) then SELL else HOLD)"
  unfolding CompositeStrategy_generate_signal_def Let_def bucket_weight_members ..



text \<open>
  A vote on the threshold. Members with strengths 0.1 and 0.2 for BUY and 0.2 for HOLD
  have an exact buy ratio of 0.6, which is not above 0.6; the doubles give
  0.6000000000000001 and the composite says BUY, as the code does.
\<close>

lemma composite_on_the_threshold:
  "CompositeStrategy_generate_signal
     (CompositeStrategy_init
        [fixed_strategy BUY (1 / 10), fixed_strategy BUY (1 / 5), fixed_strategy HOLD (1 / 5)]
        None) []
     = BUY"
proof -
  let ?buy = "fl_add (fl_add (Fin 0) (fl_mul (Fin (1 / 10)) (Fin 1)))
                (fl_mul (Fin (1 / 5)) (Fin 1))"
  let ?hold = "fl_add (Fin 0) (fl_mul (Fin (1 / 5)) (Fin 1))"
  let ?total = "fl_add (fl_add ?buy (Fin 0)) ?hold"
  let ?members = "[(fixed_strategy BUY (1 / 10), 1), (fixed_strategy BUY (1 / 5), 1),
                   (fixed_strategy HOLD (1 / 5), 1 :: real)]"
  from vote_on_the_threshold have
    r: "fl_div ?buy ?total = Fin (1351079888211149 / 2251799813685248)"
    and lt: "fnum_lt (Fin double_0_6) (Fin (1351079888211149 / 2251799813685248))"
    by blast+
  have t: "?total \<noteq> Fin 0"
  proof
    assume z: "?total = Fin 0"
    have "fl_div x (Fin 0) \<noteq> Fin y" for x y
      by (cases x) (simp_all add: fdiv_def)
    with r[unfolded z] show False by blast
  qed
  have c: "CompositeStrategy_init
        [fixed_strategy BUY (1 / 10), fixed_strategy BUY (1 / 5), fixed_strategy HOLD (1 / 5)]
        None
      = \<lparr>strategies = [fixed_strategy BUY (1 / 10), fixed_strategy BUY (1 / 5),
                       fixed_strategy HOLD (1 / 5)],
         weights = [1, 1, 1]\<rparr>"
    by (simp add: CompositeStrategy_init_def Let_def numeral_3_eq_3)
  have b: "weighted_bucket BUY ?members [] = ?buy"
    by (simp add: weighted_bucket_def fixed_strategy_def del: fl_mul.simps fl_add.simps)
  have s: "weighted_bucket SELL ?members [] = Fin 0"
    by (simp add: weighted_bucket_def fixed_strategy_def)
  have h: "weighted_bucket HOLD ?members [] = ?hold"
    by (simp add: weighted_bucket_def fixed_strategy_def del: fl_mul.simps fl_add.simps)
  have "CompositeStrategy_generate_signal
          \<lparr>strategies = [fixed_strategy BUY (1 / 10), fixed_strategy BUY (1 / 5),
                         fixed_strategy HOLD (1 / 5)],
           weights = [1, 1, 1]\<rparr> []
        = (if ?total = Fin 0 then HOLD
           else if fnum_lt (Fin double_0_6) (fl_div ?buy ?total) then BUY
           else if fnum_lt (Fin double_0_6) (fl_div (Fin 0) ?total) then SELL else HOLD)"
    unfolding composite_by_members Let_def
    by (simp only: CompositeStrategy.simps zip.simps list.case b s h)
  also have "\<dots> = BUY" using t lt unfolding r by (simp only: if_False if_True)
  finally show ?thesis unfolding c .
qed


section \<open>Cash and equity around a trade\<close>






section \<open>Bounds on the metrics\<close>

lemma fnum_le_trans:
  "fnum_le x y \<Longrightarrow> fnum_le y z \<Longrightarrow> fnum_le x z"
  by (cases x; cases y; cases z) auto

lemma fnum_le_total: "x \<noteq> NaN \<Longrightarrow> y \<noteq> NaN \<Longrightarrow> fnum_le x y \<or> fnum_le y x"
  by (cases x; cases y) auto

lemma fnum_le_refl: "x \<noteq> NaN \<Longrightarrow> fnum_le x x"
  by (cases x) auto

lemma series_min_NaN: "series_min xs = NaN \<longleftrightarrow> (\<forall>x\<in>set xs. x = NaN)"
  by (induction xs) (auto simp: Let_def)

lemma series_min_member: "series_min xs \<noteq> NaN \<Longrightarrow> series_min xs \<in> set xs"
  by (induction xs) (auto simp: Let_def split: if_splits)

lemma series_min_le:
  "x \<in> set xs \<Longrightarrow> x \<noteq> NaN \<Longrightarrow> fnum_le (series_min xs) x"
proof (induction xs)
  case Nil
  then show ?case by simp
next
  case (Cons y ys)
  show ?case
  proof (cases "x = y")
    case True
    then show ?thesis using Cons.prems
      by (auto simp: Let_def fnum_le_refl dest: fnum_le_total)
  next
    case False
    then have in_ys: "x \<in> set ys" using Cons.prems by simp
    then have m: "series_min ys \<noteq> NaN" using Cons.prems by (auto simp: series_min_NaN)
    have le: "fnum_le (series_min ys) x" using Cons.IH[OF in_ys Cons.prems(2)] .
    show ?thesis using m le by (auto simp: Let_def intro: fnum_le_trans)
  qed
qed

lemma expanding_max_from_length: "length (expanding_max_from m es) = length es"
  by (induction es arbitrary: m) auto

lemma expanding_max_length: "length (expanding_max es) = length es"
  by (cases es) (auto simp: expanding_max_def expanding_max_from_length)

lemma expanding_max_from_peaks:
  "(e, pk) \<in> set (zip es (expanding_max_from m es)) \<Longrightarrow> m \<le> pk \<and> e \<le> pk"
proof (induction es arbitrary: m)
  case Nil
  then show ?case by simp
next
  case (Cons a es)
  then show ?case by (fastforce dest: Cons.IH)
qed

lemma expanding_max_peaks:
  "(e, pk) \<in> set (zip es (expanding_max es)) \<Longrightarrow> hd es \<le> pk \<and> e \<le> pk"
  by (cases es) (auto simp: expanding_max_def dest: expanding_max_from_peaks)

lemma drawdown_entry:
  assumes "e \<le> pk" and "0 \<le> pk"
  shows "fdiv (e - pk) pk = NaN \<or> fnum_le (fdiv (e - pk) pk) (Fin 0)"
proof (cases "pk = 0")
  case True
  then show ?thesis using assms by (simp add: fdiv_def)
next
  case False
  then have "(e - pk) / pk \<le> 0" using assms by (simp add: divide_le_0_iff)
  from round_double_nonpos[OF this] False show ?thesis by (auto simp: fdiv_def)
qed

text \<open>
  The maximum drawdown is never positive, but it need not be a number: it is NaN when
  every entry of the drawdown series is zero over zero.
\<close>

lemma max_drawdown_sign:
  "series_min (drawdown es) = NaN \<or> fnum_le (series_min (drawdown es)) (Fin 0)"
proof (cases es)
  case Nil
  then show ?thesis by (simp add: drawdown_def expanding_max_def)
next
  case (Cons e0 rest)
  show ?thesis
  proof (cases "0 \<le> e0")
    case True
    have "x = NaN \<or> fnum_le x (Fin 0)" if "x \<in> set (drawdown es)" for x
    proof -
      from that obtain e pk where
        z: "(e, pk) \<in> set (zip es (expanding_max es))" and x: "x = fdiv (e - pk) pk"
        by (auto simp: drawdown_def)
      from expanding_max_peaks[OF z] Cons True have "e \<le> pk" "0 \<le> pk" by simp_all
      then show ?thesis unfolding x by (rule drawdown_entry)
    qed
    then show ?thesis using series_min_member by blast
  next
    case False
    then have "Fin 0 \<in> set (drawdown es)"
      using Cons by (simp add: drawdown_def expanding_max_def fdiv_def round_double_def)
    then show ?thesis using series_min_le by blast
  qed
qed

lemma max_drawdown_NaN:
  assumes "series_min (drawdown es) = NaN"
  shows "\<forall>e\<in>set es. e = 0"
proof
  fix e assume "e \<in> set es"
  then obtain k where k: "k < length es" "es ! k = e" by (auto simp: in_set_conv_nth)
  let ?pk = "expanding_max es ! k"
  have z: "(e, ?pk) \<in> set (zip es (expanding_max es))"
    using k by (auto simp: set_zip expanding_max_length)
  then have "fdiv (e - ?pk) ?pk \<in> set (drawdown es)"
    by (force simp: drawdown_def)
  with assms have "fdiv (e - ?pk) ?pk = NaN" by (simp add: series_min_NaN)
  then show "e = 0" by (auto simp: fdiv_def round_double_not_NaN split: if_splits)
qed

text \<open>
  What holds of every result of \<open>run_backtest\<close>: the win rate and the signal accuracy
  lie between 0 and 1, the profit factor is not negative, and the maximum drawdown is
  not positive unless it is NaN, which takes an equity curve of zeros only.
\<close>

lemma metrics_bounds:
  assumes "length pls = length closed_trades" and "sc \<le> tot"
  shows "0 \<le> win_rate (metrics eng name symb closed_trades pls eq sc tot)
     \<and> win_rate (metrics eng name symb closed_trades pls eq sc tot) \<le> 1
     \<and> 0 \<le> signals_accuracy (metrics eng name symb closed_trades pls eq sc tot)
     \<and> signals_accuracy (metrics eng name symb closed_trades pls eq sc tot) \<le> 1
     \<and> 0 \<le> profit_factor (metrics eng name symb closed_trades pls eq sc tot)"
proof -
  have "length (filter (\<lambda>p. p > 0) pls) \<le> length closed_trades"
    using assms(1) length_filter_le[of "\<lambda>p. p > 0" pls] by simp
  then show ?thesis using assms(2)
    by (simp add: metrics_def Let_def divide_le_eq_1)
qed

lemma run_backtest_bounds:
  assumes "fst (run_backtest lib eng symb data name sd ed) = Inr r"
  shows "0 \<le> win_rate r \<and> win_rate r \<le> 1
     \<and> 0 \<le> signals_accuracy r \<and> signals_accuracy r \<le> 1
     \<and> 0 \<le> profit_factor r
     \<and> (max_drawdown r = NaN \<and> (\<forall>e\<in>set (equity_curve r). e = 0)
          \<or> fnum_le (max_drawdown r) (Fin 0))"
  using assms
proof (cases rule: run_backtest_result)
  case empty
  then show ?thesis by (simp add: empty_result_fields)
next
  case (simulated strat)
  let ?data = "filter_dates sd ed data"
  from simulated(2) obtain s where
    run: "run_bars eng strat symb name ?data [50..<length ?data] (initial_sim eng) = Inr s"
    and cm: "calculate_metrics eng name symb (close_remaining eng ?data (st_trades s))
       (st_equity_curve s) (st_signals_correct s) (st_total_signals s) = Inr r"
    by (rule simulate_result)
  have cnt: "st_signals_correct s \<le> st_total_signals s"
    using run_bars_ok[OF run sim_ok_initial] by (simp add: sim_ok_def)
  from cm show ?thesis
  proof (cases rule: calculate_metrics_cases)
    case empty
    then show ?thesis by (simp add: empty_result_fields)
  next
    case (full pls)
    note b = metrics_bounds[OF those_map_length[OF full(2)] cnt, of eng name symb
               "st_equity_curve s"]
    have dd: "max_drawdown r = series_min (drawdown (st_equity_curve s))"
      and eq: "equity_curve r = st_equity_curve s"
      using full(3) by (simp_all add: metrics_fields)
    show ?thesis
      using b max_drawdown_sign[of "st_equity_curve s"]
        max_drawdown_NaN[of "st_equity_curve s"]
      unfolding full(3)[symmetric] dd eq by blast
  qed
qed


section \<open>The example runs\<close>

lemma falling_bars_length: "length (falling_bars n) = n"
  by (simp add: falling_bars_def)

lemma falling_bars_nth: "i < n \<Longrightarrow> falling_bars n ! i = bar_at (int i) (100 - real i)"
  by (simp add: falling_bars_def)

lemma same_day_bars_length: "length (same_day_bars n) = n"
  by (simp add: same_day_bars_def)

lemma same_day_bars_nth: "i < n \<Longrightarrow> same_day_bars n ! i = bar_at 0 (100 - real i)"
  by (simp add: same_day_bars_def)

lemma last_move_signal:
  assumes "0 < i" and "i < length data"
  shows "generate_signal last_move_strategy (take (i + 1) data)
           = (if Close (data ! i) < Close (data ! (i - 1)) then BUY
              else if Close (data ! i) > Close (data ! (i - 1)) then SELL
              else HOLD)"
proof -
  have l: "last (take (Suc i) data) = data ! i"
    using last_take_Suc[OF assms(2)] by simp
  have b: "butlast (take (Suc i) data) = take i data"
    using assms(2) by (simp add: butlast_take)
  have "take i data = take (Suc (i - 1)) data" using assms(1) by simp
  also have "last \<dots> = data ! (i - 1)"
    using assms last_take_Suc[of "i - 1" data] by simp
  finally have p: "last (take i data) = data ! (i - 1)" .
  show ?thesis using assms l b p by (simp add: last_move_strategy_def)
qed

lemma bar_step_nth:
  assumes "i < length data"
  shows "bar_step eng strat symb name data i s
           = (let sig = generate_signal strat (take (i + 1) data);
                  p = Close (data ! i)
              in case execute_signal eng symb name sig p (index (data ! i))
                        (track_accuracy data i sig p s) of
                   Inl e \<Rightarrow> Inl e
                 | Inr s2 \<Rightarrow>
                     Inr (s2\<lparr>st_equity_curve :=
                               st_equity_curve s2 @ [current_equity p s2]\<rparr>))"
  unfolding bar_step_def Let_def last_take_Suc[OF assms] ..

lemma run_backtest_rsi:
  assumes "50 \<le> length data"
  shows "fst (run_backtest lib (example_engine capital rate) symb data ''rsi'' None None)
           = simulate (example_engine capital rate) last_move_strategy symb ''rsi'' data"
  using assms
  by (simp add: run_backtest_def filter_dates_def get_strategy_def example_engine_def
        example_manager_def Let_def)

lemma rebound_bars_facts:
  "length rebound_bars = 52"
  "rebound_bars ! 49 = bar_at 49 51"
  "rebound_bars ! 50 = bar_at 50 50"
  "rebound_bars ! 51 = bar_at 51 60"
  by (simp_all add: rebound_bars_def falling_bars_length falling_bars_nth nth_append)

text \<open>
  The sizes of the positions in the examples: \<open>int(10000 * 0.95 / 50)\<close> is 190 and
  \<open>int(62.5 * 0.95 / 50)\<close> is 1.
\<close>

lemma shares_10000_at_50:
  "py_int (fl_div (fl_mul (Fin 10000) (Fin double_0_95)) (Fin 50)) = Inr 190"
proof -
  have "fl_mul (Fin 10000) (Fin double_0_95) = Fin 9500"
    by (simp only: fl_mul.simps round_double_9500)
  moreover have "fl_div (Fin 9500) (Fin 50) = Fin 190"
    by (simp add: fdiv_def round_double_190)
  ultimately show ?thesis by (simp add: py_int_def)
qed

lemma shares_62_5_at_50:
  "py_int (fl_div (fl_mul (Fin 62.5) (Fin double_0_95)) (Fin 50)) = Inr 1"
proof -
  have "fl_mul (Fin 62.5) (Fin double_0_95) = Fin 59.375"
    by (simp only: fl_mul.simps round_double_59_375)
  moreover have "fl_div (Fin 59.375) (Fin 50) = Fin (19 / 16)"
    using round_double_1_1875 by (simp add: fdiv_def)
  ultimately show ?thesis by (simp add: py_int_def floor_eq_iff)
qed

lemma rebound_step_50:
  "bar_step default_engine last_move_strategy ''AAPL'' ''rsi'' rebound_bars 50
     (initial_sim default_engine) = Inr sim_after_50"
proof -
  have sig: "generate_signal last_move_strategy (take (50 + 1) rebound_bars) = BUY"
    by (subst last_move_signal) (simp_all add: rebound_bars_facts bar_at_def)
  have "(50::nat) < length rebound_bars" by (simp add: rebound_bars_facts)
  note step = bar_step_nth[OF this, of default_engine last_move_strategy "''AAPL''" "''rsi''"
                "(initial_sim default_engine)"]
  show ?thesis
    unfolding step sig Let_def
    by (simp add: rebound_bars_facts bar_at_def track_accuracy_def execute_signal_def
          open_long_def shares_10000_at_50 initial_sim_def default_engine_def
          example_engine_def current_equity_def sim_after_50_def long_trade_def
          del: fl_mul.simps fl_div.simps)
qed

lemma rebound_step_51:
  "bar_step default_engine last_move_strategy ''AAPL'' ''rsi'' rebound_bars 51 sim_after_50
     = Inr sim_after_51"
proof -
  have sig: "generate_signal last_move_strategy (take (51 + 1) rebound_bars) = SELL"
    by (subst last_move_signal) (simp_all add: rebound_bars_facts bar_at_def)
  have "(51::nat) < length rebound_bars" by (simp add: rebound_bars_facts)
  note step = bar_step_nth[OF this, of default_engine last_move_strategy "''AAPL''" "''rsi''"
                "sim_after_50"]
  show ?thesis
    unfolding step sig Let_def
    by (simp add: rebound_bars_facts bar_at_def track_accuracy_def execute_signal_def
          close_last_def close_position_def default_engine_def Let_def
          example_engine_def current_equity_def sim_after_50_def sim_after_51_def
          long_trade_def)
qed

lemma upt_50_51: "[50..<51] = [50]"
  by (simp add: upt_rec)

lemma upt_50_52: "[50..<52] = [50, 51]"
  by (simp add: upt_rec)

lemma rebound_run_50:
  "run_bars default_engine last_move_strategy ''AAPL'' ''rsi'' rebound_bars [50]
     (initial_sim default_engine) = Inr sim_after_50"
  by (simp add: rebound_step_50)

lemma rebound_run:
  "run_bars default_engine last_move_strategy ''AAPL'' ''rsi'' rebound_bars
     [50..<length rebound_bars] (initial_sim default_engine) = Inr sim_after_51"
  by (simp add: rebound_bars_facts upt_50_52 rebound_step_50 rebound_step_51)

lemma rebound_backtest:
  "fst (run_backtest lib default_engine ''AAPL'' rebound_bars ''rsi'' None None)
     = Inr (metrics default_engine ''rsi'' ''AAPL'' (st_trades sim_after_51) [1879.1]
              [490.5, 2369.6] 1 1)"
proof -
  have "fst (run_backtest lib default_engine ''AAPL'' rebound_bars ''rsi'' None None)
          = simulate default_engine last_move_strategy ''AAPL'' ''rsi'' rebound_bars"
    unfolding default_engine_def by (rule run_backtest_rsi) (simp add: rebound_bars_facts)
  also have "\<dots> = calculate_metrics default_engine ''rsi'' ''AAPL''
                     (close_remaining default_engine rebound_bars (st_trades sim_after_51))
                     (st_equity_curve sim_after_51) (st_signals_correct sim_after_51)
                     (st_total_signals sim_after_51)"
    by (simp add: simulate_def rebound_run)
  also have "\<dots> = Inr (metrics default_engine ''rsi'' ''AAPL'' (st_trades sim_after_51)
                         [1879.1] [490.5, 2369.6] 1 1)"
    by (simp add: calculate_metrics_def close_remaining_def sim_after_51_def Let_def)
  finally show ?thesis .
qed


text \<open>
  A series of 51 bars closing at 51 and then at 50: the last-move strategy buys on bar
  50, the only bar simulated, and the trade is closed at the same price after the loop.
\<close>

lemma buy_on_last_bar_loop:
  assumes len: "length data = 51"
    and c49: "Close (data ! 49) = 51" and c50: "Close (data ! 50) = 50"
    and q: "py_int (fl_div (fl_mul (Fin cap) (Fin double_0_95)) (Fin 50)) = Inr q" "0 < q"
  shows "run_bars (example_engine cap rate) last_move_strategy symb name data
           [50..<length data] (initial_sim (example_engine cap rate))
         = Inr \<lparr>st_trades =
                  [\<lparr>entry_date = index (data ! 50), exit_date = None,
                    entry_price = 50, exit_price = None, quantity = q,
                    trade_type = ''BUY'', strategy = name, Trade.symbol = symb,
                    profit_loss = None, is_open = True\<rparr>],
                st_capital = cap - of_int q * 50 * (1 + rate),
                st_position = 1, st_entry_price = 50,
                st_entry_date = Some (index (data ! 50)),
                st_equity_curve = [cap - of_int q * 50 * (1 + rate)],
                st_signals_correct = 0, st_total_signals = 0\<rparr>"
proof -
  let ?eng = "example_engine cap rate"
  have sig: "generate_signal last_move_strategy (take (50 + 1) data) = BUY"
    by (subst last_move_signal) (simp_all add: len c49 c50)
  have "(50::nat) < length data" by (simp add: len)
  note step = bar_step_nth[OF this, of ?eng last_move_strategy symb name "initial_sim ?eng"]
  note size = q(1)
  have "bar_step ?eng last_move_strategy symb name data 50 (initial_sim ?eng)
          = Inr \<lparr>st_trades =
                  [\<lparr>entry_date = index (data ! 50), exit_date = None,
                    entry_price = 50, exit_price = None, quantity = q,
                    trade_type = ''BUY'', strategy = name, Trade.symbol = symb,
                    profit_loss = None, is_open = True\<rparr>],
                st_capital = cap - of_int q * 50 * (1 + rate),
                st_position = 1, st_entry_price = 50,
                st_entry_date = Some (index (data ! 50)),
                st_equity_curve = [cap - of_int q * 50 * (1 + rate)],
                st_signals_correct = 0, st_total_signals = 0\<rparr>"
    unfolding step sig Let_def c50
    using q(2) size
    by (simp add: len track_accuracy_def execute_signal_def open_long_def
          initial_sim_def example_engine_def current_equity_def)
  then show ?thesis by (simp add: len upt_50_51)
qed

lemma buy_on_last_bar:
  assumes len: "length data = 51"
    and c49: "Close (data ! 49) = 51" and c50: "Close (data ! 50) = 50"
    and q: "py_int (fl_div (fl_mul (Fin cap) (Fin double_0_95)) (Fin 50)) = Inr q" "0 < q"
  shows "simulate (example_engine cap rate) last_move_strategy symb name data
           = Inr (metrics (example_engine cap rate) name symb
                    [\<lparr>entry_date = index (data ! 50), exit_date = Some (index (data ! 50)),
                      entry_price = 50, exit_price = Some 50, quantity = q,
                      trade_type = ''BUY'', strategy = name, Trade.symbol = symb,
                      profit_loss = Some (- (100 * of_int q * rate)), is_open = False\<rparr>]
                    [- (100 * of_int q * rate)]
                    [cap - of_int q * 50 * (1 + rate)] 0 0)"
proof -
  note run = buy_on_last_bar_loop[OF assms, of rate symb name]
  have "data \<noteq> []" using len by auto
  then have l: "last data = data ! 50"
    using len by (simp add: last_conv_nth)
  show ?thesis
    unfolding simulate_def run
    by (simp add: close_remaining_def close_position_def calculate_metrics_def l c50
          example_engine_def Let_def)
qed

lemma falling_51_facts:
  "length (falling_bars 51) = 51"
  "Close (falling_bars 51 ! 49) = 51"
  "Close (falling_bars 51 ! 50) = 50"
  by (simp_all add: falling_bars_length falling_bars_nth bar_at_def)

lemma same_day_51_facts:
  "length (same_day_bars 51) = 51"
  "Close (same_day_bars 51 ! 49) = 51"
  "Close (same_day_bars 51 ! 50) = 50"
  by (simp_all add: same_day_bars_length same_day_bars_nth bar_at_def)

lemma same_day_loop:
  "run_bars default_engine last_move_strategy ''AAPL'' ''rsi'' (same_day_bars 51)
     [50..<length (same_day_bars 51)] (initial_sim default_engine) = Inr sim_same_day"
proof -
  have "run_bars (example_engine 10000 0.001) last_move_strategy ''AAPL'' ''rsi''
          (same_day_bars 51) [50..<length (same_day_bars 51)]
          (initial_sim (example_engine 10000 0.001))
        = Inr \<lparr>st_trades =
                  [\<lparr>entry_date = index (same_day_bars 51 ! 50), exit_date = None,
                    entry_price = 50, exit_price = None, quantity = 190,
                    trade_type = ''BUY'', strategy = ''rsi'', Trade.symbol = ''AAPL'',
                    profit_loss = None, is_open = True\<rparr>],
                st_capital = 10000 - of_int 190 * 50 * (1 + 0.001),
                st_position = 1, st_entry_price = 50,
                st_entry_date = Some (index (same_day_bars 51 ! 50)),
                st_equity_curve = [10000 - of_int 190 * 50 * (1 + 0.001)],
                st_signals_correct = 0, st_total_signals = 0\<rparr>"
    by (rule buy_on_last_bar_loop[OF _ _ _ shares_10000_at_50])
       (simp_all add: same_day_51_facts)
  then show ?thesis
    unfolding default_engine_def
    by (simp add: same_day_bars_nth bar_at_def sim_same_day_def long_trade_def)
qed

lemma same_day_backtest:
  "fst (run_backtest example_library default_engine ''AAPL'' (same_day_bars 51) ''rsi''
          None None)
     = Inr (metrics default_engine ''rsi'' ''AAPL''
              [\<lparr>entry_date = 0, exit_date = Some 0, entry_price = 50, exit_price = Some 50,
                quantity = 190, trade_type = ''BUY'', strategy = ''rsi'',
                Trade.symbol = ''AAPL'', profit_loss = Some (- 19), is_open = False\<rparr>]
              [- 19] [490.5] 0 0)"
proof -
  have "simulate (example_engine 10000 0.001) last_move_strategy ''AAPL'' ''rsi''
          (same_day_bars 51)
        = Inr (metrics (example_engine 10000 0.001) ''rsi'' ''AAPL''
              [\<lparr>entry_date = index (same_day_bars 51 ! 50),
                exit_date = Some (index (same_day_bars 51 ! 50)),
                entry_price = 50, exit_price = Some 50,
                quantity = 190, trade_type = ''BUY'', strategy = ''rsi'',
                Trade.symbol = ''AAPL'', profit_loss = Some (- (100 * of_int 190 * 0.001)),
                is_open = False\<rparr>]
              [- (100 * of_int 190 * 0.001)] [10000 - of_int 190 * 50 * (1 + 0.001)] 0 0)"
    by (rule buy_on_last_bar[OF _ _ _ shares_10000_at_50])
       (simp_all add: same_day_51_facts)
  then show ?thesis
    unfolding default_engine_def
    by (simp add: run_backtest_rsi same_day_51_facts same_day_bars_nth bar_at_def)
qed

lemma costly_backtest:
  "fst (run_backtest example_library costly_engine ''AAPL'' (falling_bars 51) ''rsi''
          None None)
     = Inr (metrics costly_engine ''rsi'' ''AAPL''
              [\<lparr>entry_date = 4320000, exit_date = Some 4320000, entry_price = 50,
                exit_price = Some 50, quantity = 1, trade_type = ''BUY'',
                strategy = ''rsi'', Trade.symbol = ''AAPL'', profit_loss = Some (- 25),
                is_open = False\<rparr>]
              [- 25] [0] 0 0)"
proof -
  have "simulate (example_engine 62.5 0.25) last_move_strategy ''AAPL'' ''rsi''
          (falling_bars 51)
        = Inr (metrics (example_engine 62.5 0.25) ''rsi'' ''AAPL''
              [\<lparr>entry_date = index (falling_bars 51 ! 50),
                exit_date = Some (index (falling_bars 51 ! 50)),
                entry_price = 50, exit_price = Some 50,
                quantity = 1, trade_type = ''BUY'', strategy = ''rsi'',
                Trade.symbol = ''AAPL'', profit_loss = Some (- (100 * of_int 1 * 0.25)),
                is_open = False\<rparr>]
              [- (100 * of_int 1 * 0.25)] [62.5 - of_int 1 * 50 * (1 + 0.25)] 0 0)"
    by (rule buy_on_last_bar[OF _ _ _ shares_62_5_at_50])
       (simp_all add: falling_51_facts)
  then show ?thesis
    unfolding costly_engine_def
    by (simp add: run_backtest_rsi falling_51_facts falling_bars_nth bar_at_def)
qed

lemma untrained_backtest:
  "fst (run_backtest example_library default_engine ''AAPL'' (falling_bars 51) ''ml_rf''
          None None)
     = Inr (create_empty_result ''ml_rf'' ''AAPL'')"
proof -
  let ?ml = "ml_strategy example_library MLRandomForestStrategy_init"
  have sig: "generate_signal ?ml w = HOLD" for w
    by (simp add: ml_strategy_def MLRandomForestStrategy_generate_signal_def
          buy_probability_def MLRandomForestStrategy_init_def)
  have "(50::nat) < length (falling_bars 51)" by (simp add: falling_bars_length)
  note step = bar_step_nth[OF this, of default_engine ?ml "''AAPL''" "''ml_rf''"
                "initial_sim default_engine"]
  have "bar_step default_engine ?ml ''AAPL'' ''ml_rf'' (falling_bars 51) 50
          (initial_sim default_engine)
        = Inr ((initial_sim default_engine)\<lparr>st_equity_curve := [10000]\<rparr>)"
    unfolding step sig Let_def
    by (simp add: track_accuracy_def falling_bars_length execute_signal_def
          current_equity_def initial_sim_def default_engine_def example_engine_def)
  then have run: "run_bars default_engine ?ml ''AAPL'' ''ml_rf'' (falling_bars 51)
                    [50..<length (falling_bars 51)] (initial_sim default_engine)
                  = Inr ((initial_sim default_engine)\<lparr>st_equity_curve := [10000]\<rparr>)"
    by (simp add: falling_bars_length upt_50_51)
  have sim: "simulate default_engine ?ml ''AAPL'' ''ml_rf'' (falling_bars 51)
               = Inr (create_empty_result ''ml_rf'' ''AAPL'')"
    unfolding simulate_def run
    by (simp add: close_remaining_def calculate_metrics_def initial_sim_def)
  have "prepare_features example_library (falling_bars 51) = []"
    by (simp add: prepare_features_def falling_bars_length)
  then have train: "train_ml_strategies example_library example_manager ''AAPL''
                      (falling_bars 51) = example_manager"
    by (simp add: train_ml_strategies_def train_model_def)
  have mgr: "strategy_manager default_engine = example_manager"
    by (simp add: default_engine_def example_engine_def)
  have get: "get_strategy example_library example_manager ''ml_rf'' = Some ?ml"
    by (simp add: get_strategy_def example_manager_def)
  have ml: "ml_rf example_manager = MLRandomForestStrategy_init"
    by (simp add: example_manager_def)
  show ?thesis
    by (simp add: run_backtest_def filter_dates_def falling_bars_length mgr train get sim
          ml)
qed

lemma zero_close_size:
  "py_int (fl_div (fl_mul (Fin 10000) (Fin double_0_95)) (Fin 0)) = Inl OverflowError"
proof -
  have "fl_mul (Fin 10000) (Fin double_0_95) = Fin 9500"
    by (simp only: fl_mul.simps round_double_9500)
  then show ?thesis by (simp add: py_int_def fdiv_def)
qed

lemma zero_close_facts:
  "length zero_close_bars = 51"
  "zero_close_bars ! 49 = bar_at 49 51"
  "zero_close_bars ! 50 = bar_at 50 0"
  by (simp_all add: zero_close_bars_def falling_bars_length falling_bars_nth nth_append)

lemma zero_close_loop:
  "run_bars default_engine last_move_strategy ''AAPL'' ''rsi'' zero_close_bars
     [50..<length zero_close_bars] (initial_sim default_engine) = Inl OverflowError"
proof -
  have sig: "generate_signal last_move_strategy (take (50 + 1) zero_close_bars) = BUY"
    by (subst last_move_signal) (simp_all add: zero_close_facts bar_at_def)
  have "(50::nat) < length zero_close_bars" by (simp add: zero_close_facts)
  note step = bar_step_nth[OF this, of default_engine last_move_strategy "''AAPL''" "''rsi''"
                "initial_sim default_engine"]
  have "bar_step default_engine last_move_strategy ''AAPL'' ''rsi'' zero_close_bars 50
          (initial_sim default_engine) = Inl OverflowError"
    unfolding step sig Let_def
    by (simp add: zero_close_facts bar_at_def track_accuracy_def execute_signal_def
          open_long_def zero_close_size initial_sim_def default_engine_def
          example_engine_def del: fl_mul.simps fl_div.simps)
  then show ?thesis by (simp add: zero_close_facts upt_50_51)
qed

text \<open>
  The same with a close of \<open>1e-320\<close> on bar 50, below the close of 51 before it: the
  size of the position overflows and \<open>int\<close> raises.
\<close>

lemma tiny_close_facts:
  "length tiny_close_bars = 51"
  "tiny_close_bars ! 49 = bar_at 49 51"
  "tiny_close_bars ! 50 = bar_at 50 (2024 * pow2 (- 1074))"
  by (simp_all add: tiny_close_bars_def falling_bars_length falling_bars_nth nth_append)

lemma tiny_close_loop:
  "run_bars default_engine last_move_strategy ''AAPL'' ''rsi'' tiny_close_bars
     [50..<length tiny_close_bars] (initial_sim default_engine) = Inl OverflowError"
proof -
  have small: "2024 * pow2 (- 1074) < 51" by (simp add: pow2_def)
  have sig: "generate_signal last_move_strategy (take (50 + 1) tiny_close_bars) = BUY"
    using small by (subst last_move_signal) (simp_all add: tiny_close_facts bar_at_def)
  have "(50::nat) < length tiny_close_bars" by (simp add: tiny_close_facts)
  note step = bar_step_nth[OF this, of default_engine last_move_strategy "''AAPL''" "''rsi''"
                "initial_sim default_engine"]
  have "bar_step default_engine last_move_strategy ''AAPL'' ''rsi'' tiny_close_bars 50
          (initial_sim default_engine) = Inl OverflowError"
    unfolding step sig Let_def
    by (simp add: tiny_close_facts bar_at_def track_accuracy_def execute_signal_def
          open_long_def tiny_close_overflows initial_sim_def default_engine_def
          example_engine_def del: fl_mul.simps fl_div.simps)
  then show ?thesis by (simp add: tiny_close_facts upt_50_51)
qed

lemma tiny_close_backtest:
  "fst (run_backtest example_library default_engine ''AAPL'' tiny_close_bars ''rsi''
          None None) = Inl OverflowError"
proof -
  have "simulate default_engine last_move_strategy ''AAPL'' ''rsi'' tiny_close_bars
          = Inl OverflowError"
    by (simp add: simulate_def tiny_close_loop)
  then show ?thesis
    unfolding default_engine_def by (simp add: run_backtest_rsi tiny_close_facts)
qed


section \<open>The statements on the example runs\<close>

text \<open>After bar 50 of the rebound run the position is long.\<close>

theorem position_never_short_witness:
  "run_bars default_engine last_move_strategy ''AAPL'' ''rsi'' rebound_bars [50]
     (initial_sim default_engine) = Inr sim_after_50
   \<and> (st_position sim_after_50 = 0 \<or> st_position sim_after_50 = 1)
   \<and> st_position sim_after_50 \<noteq> - 1"
  using rebound_run_50 position_never_short[OF rebound_run_50] by blast

text \<open>
  The rebound run has 52 bars and one trade: its equity curve has the two points of
  bars 50 and 51.
\<close>

theorem equity_curve_length_witness:
  "fst (run_backtest example_library default_engine ''AAPL'' rebound_bars ''rsi''
          None None)
     = Inr (metrics default_engine ''rsi'' ''AAPL'' (st_trades sim_after_51) [1879.1]
              [490.5, 2369.6] 1 1)
   \<and> total_trades (metrics default_engine ''rsi'' ''AAPL'' (st_trades sim_after_51)
                      [1879.1] [490.5, 2369.6] 1 1) = 1
   \<and> length (equity_curve (metrics default_engine ''rsi'' ''AAPL'' (st_trades sim_after_51)
                              [1879.1] [490.5, 2369.6] 1 1)) = 2"
proof -
  let ?r = "metrics default_engine ''rsi'' ''AAPL'' (st_trades sim_after_51) [1879.1]
              [490.5, 2369.6] 1 1"
  note run = rebound_backtest[of example_library]
  have n: "total_trades ?r = 1" by (simp add: metrics_fields sim_after_51_def)
  have "length (equity_curve ?r)
          = (if total_trades ?r = 0 then 0
             else length (filter_dates None None rebound_bars) - 50)"
    using run by (rule equity_curve_length)
  then have "length (equity_curve ?r) = 2"
    unfolding n by (simp add: filter_dates_def rebound_bars_facts)
  with run n show ?thesis by blast
qed

text \<open>
  Fifty-one bars and the registered id \<open>'ml_rf'\<close>: the forest cannot be trained on so
  short a frame and holds on bar 50, no trade is opened, and the run returns the empty
  result. Its equity curve has no point, where \<open>len(bars) - 50\<close> is 1.
\<close>

theorem equity_curve_length_counterexample:
  "50 \<le> length (falling_bars 51)
   \<and> ''ml_rf'' \<in> set strategy_ids
   \<and> fst (run_backtest example_library default_engine ''AAPL'' (falling_bars 51)
            ''ml_rf'' None None)
       = Inr (create_empty_result ''ml_rf'' ''AAPL'')
   \<and> length (equity_curve (create_empty_result ''ml_rf'' ''AAPL'')) = 0
   \<and> length (falling_bars 51) - 50 = 1"
  using untrained_backtest
  by (simp add: falling_bars_length strategy_ids_def empty_result_fields)

text \<open>The rebound run closes its one trade with a profit: the profit factor is 0.\<close>

theorem profit_factor_without_losses_witness:
  "fst (run_backtest example_library default_engine ''AAPL'' rebound_bars ''rsi''
          None None)
     = Inr (metrics default_engine ''rsi'' ''AAPL'' (st_trades sim_after_51) [1879.1]
              [490.5, 2369.6] 1 1)
   \<and> winning_trades (metrics default_engine ''rsi'' ''AAPL'' (st_trades sim_after_51)
                        [1879.1] [490.5, 2369.6] 1 1) = 1
   \<and> profit_factor (metrics default_engine ''rsi'' ''AAPL'' (st_trades sim_after_51)
                       [1879.1] [490.5, 2369.6] 1 1) = 0"
proof -
  let ?r = "metrics default_engine ''rsi'' ''AAPL'' (st_trades sim_after_51) [1879.1]
              [490.5, 2369.6] 1 1"
  note run = rebound_backtest[of example_library]
  have w: "winning_trades ?r = 1" by (simp add: metrics_def Let_def)
  have "\<forall>t\<in>set (trades ?r). \<forall>pl. profit_loss t = Some pl \<longrightarrow> \<not> pl < 0"
    by (simp add: metrics_fields sim_after_51_def)
  with run have "profit_factor ?r = 0" by (rule profit_factor_without_losses)
  with run w show ?thesis by blast
qed

text \<open>
  Ten bars with a registered id (scenario D of the specification), and sixty bars with
  an id that is not registered.
\<close>

theorem run_backtest_empty_result_witness:
  "run_backtest example_library default_engine ''AAPL'' (falling_bars 10) ''rsi''
     None None
     = (Inr (create_empty_result ''rsi'' ''AAPL''), default_engine)
   \<and> run_backtest example_library default_engine ''AAPL'' (falling_bars 60) ''sma''
       None None
       = (Inr (create_empty_result ''sma'' ''AAPL''), default_engine)"
proof -
  have "length (filter_dates None None (falling_bars 10)) < 50
          \<or> ''rsi'' \<notin> set strategy_ids"
    by (simp add: filter_dates_def falling_bars_length)
  note few = run_backtest_empty_result[OF this, of example_library default_engine
               "''AAPL''"]
  have "length (filter_dates None None (falling_bars 60)) < 50
          \<or> ''sma'' \<notin> set strategy_ids"
    by (simp add: strategy_ids_def)
  note unknown = run_backtest_empty_result[OF this, of example_library default_engine
                   "''AAPL''"]
  from few unknown show ?thesis by blast
qed

text \<open>
  Fifty-one bars that all carry the same timestamp go through the loop, which ends with
  the position of bar 50 open, and the run returns the result computed from that state.
  Fifty-one bars whose last close is 0 go through the loop as well, and the run raises
  what the loop raises on bar 50.
\<close>

theorem run_backtest_simulates_as_given_witness:
  "50 \<le> length (filter_dates None None (same_day_bars 51))
   \<and> get_strategy example_library (strategy_manager default_engine) ''rsi''
       = Some last_move_strategy
   \<and> run_bars default_engine last_move_strategy ''AAPL'' ''rsi'' (same_day_bars 51)
       [50..<length (same_day_bars 51)] (initial_sim default_engine) = Inr sim_same_day
   \<and> fst (run_backtest example_library default_engine ''AAPL'' (same_day_bars 51) ''rsi''
            None None)
       = calculate_metrics default_engine ''rsi'' ''AAPL''
           (close_remaining default_engine (same_day_bars 51) (st_trades sim_same_day))
           (st_equity_curve sim_same_day) (st_signals_correct sim_same_day)
           (st_total_signals sim_same_day)
   \<and> run_bars default_engine last_move_strategy ''AAPL'' ''rsi'' zero_close_bars
       [50..<length zero_close_bars] (initial_sim default_engine) = Inl OverflowError
   \<and> fst (run_backtest example_library default_engine ''AAPL'' zero_close_bars ''rsi''
            None None) = Inl OverflowError"
proof -
  have get: "get_strategy example_library (strategy_manager default_engine) ''rsi''
               = Some last_move_strategy"
    by (simp add: get_strategy_def default_engine_def example_engine_def
          example_manager_def)
  have len: "50 \<le> length (filter_dates None None (same_day_bars 51))"
    "50 \<le> length (filter_dates None None zero_close_bars)"
    by (simp_all add: filter_dates_def same_day_bars_length zero_close_facts)
  have f: "filter_dates None None bars = bars" for bars
    by (simp add: filter_dates_def)
  from run_backtest_simulates_as_given[OF len(1) get, of "''AAPL''"] same_day_loop
  have "fst (run_backtest example_library default_engine ''AAPL'' (same_day_bars 51) ''rsi''
               None None)
       = calculate_metrics default_engine ''rsi'' ''AAPL''
           (close_remaining default_engine (same_day_bars 51) (st_trades sim_same_day))
           (st_equity_curve sim_same_day) (st_signals_correct sim_same_day)
           (st_total_signals sim_same_day)"
    by (auto simp: Let_def f)
  moreover from run_backtest_simulates_as_given[OF len(2) get, of "''AAPL''"] zero_close_loop
  have "fst (run_backtest example_library default_engine ''AAPL'' zero_close_bars ''rsi''
               None None) = Inl OverflowError"
    by (auto simp: Let_def f)
  ultimately show ?thesis using get len(1) same_day_loop zero_close_loop by blast
qed

text \<open>
  Fifty-one bars that all carry the same timestamp: the run raises nothing, simulates
  bar 50 and returns a result with one trade.
\<close>

theorem timestamp_validation_counterexample:
  "\<not> sorted_wrt (<) (map index (same_day_bars 51))
   \<and> fst (run_backtest example_library default_engine ''AAPL'' (same_day_bars 51)
            ''rsi'' None None)
       = Inr (metrics default_engine ''rsi'' ''AAPL''
                [\<lparr>entry_date = 0, exit_date = Some 0, entry_price = 50,
                  exit_price = Some 50, quantity = 190, trade_type = ''BUY'',
                  strategy = ''rsi'', Trade.symbol = ''AAPL'', profit_loss = Some (- 19),
                  is_open = False\<rparr>]
                [- 19] [490.5] 0 0)
   \<and> total_trades (metrics default_engine ''rsi'' ''AAPL''
                [\<lparr>entry_date = 0, exit_date = Some 0, entry_price = 50,
                  exit_price = Some 50, quantity = 190, trade_type = ''BUY'',
                  strategy = ''rsi'', Trade.symbol = ''AAPL'', profit_loss = Some (- 19),
                  is_open = False\<rparr>]
                [- 19] [490.5] 0 0) = 1"
proof -
  have "\<not> sorted_wrt (<) (map index (same_day_bars 51))"
  proof
    assume "sorted_wrt (<) (map index (same_day_bars 51))"
    then have "map index (same_day_bars 51) ! 0 < map index (same_day_bars 51) ! 1"
      by (rule sorted_wrt_nth_less) (simp_all add: same_day_bars_length)
    then show False
      by (simp add: same_day_bars_length same_day_bars_nth bar_at_def)
  qed
  then show ?thesis using same_day_backtest by (simp add: metrics_fields)
qed


text \<open>
  C8. The claim: in every result of \<open>run_backtest\<close> the win rate and the signal
  accuracy lie in [0, 1], the profit factor is at least 0 and the maximum drawdown at
  most 0. The first three hold, and so does the fourth whenever the drawdown is a number
  (\<open>run_backtest_bounds\<close>). It is not one here: with a
  capital of 62.5 and a commission rate of 0.25, the one share bought at 50 on bar 50
  costs all the cash, the equity curve is the single point 0, the drawdown series is
  zero over zero, and the maximum drawdown returned is NaN, which is not at most 0.
\<close>

theorem max_drawdown_not_a_number:
  "fst (run_backtest example_library costly_engine ''AAPL'' (falling_bars 51) ''rsi''
          None None)
     = Inr (metrics costly_engine ''rsi'' ''AAPL''
              [\<lparr>entry_date = 4320000, exit_date = Some 4320000, entry_price = 50,
                exit_price = Some 50, quantity = 1, trade_type = ''BUY'',
                strategy = ''rsi'', Trade.symbol = ''AAPL'', profit_loss = Some (- 25),
                is_open = False\<rparr>]
              [- 25] [0] 0 0)
   \<and> max_drawdown (metrics costly_engine ''rsi'' ''AAPL''
              [\<lparr>entry_date = 4320000, exit_date = Some 4320000, entry_price = 50,
                exit_price = Some 50, quantity = 1, trade_type = ''BUY'',
                strategy = ''rsi'', Trade.symbol = ''AAPL'', profit_loss = Some (- 25),
                is_open = False\<rparr>]
              [- 25] [0] 0 0) = NaN
   \<and> \<not> fnum_le NaN (Fin 0)"
  using costly_backtest
  by (simp add: metrics_fields drawdown_def expanding_max_def fdiv_def)


end
